theory Spec2Isabelle
  imports Complex_Main "HOL-Library.AList"
begin

section \<open>JavaScript values used by the tracker\<close>

text \<open>
  The counters of the interaction record are JavaScript numbers. The code only ever adds
  integers to them, so a counter is either an integer or the result of arithmetic on a
  non-number, which the model writes \<open>NaN\<close> (every later arithmetic use of such a value
  yields \<open>NaN\<close> again). A counter read back from the storage can also be \<open>null\<close>, which
  is what \<open>JSON.stringify\<close> writes for \<open>NaN\<close>; arithmetic and comparisons convert \<open>null\<close>
  to 0. Integers are exact below \<open>2^53\<close>; the model uses \<open>int\<close>.
\<close>

datatype 'a number = Num 'a | NaN | Null

text \<open>The values that JSON text denotes. The entries of the interaction log and the
  evolution history are such values.\<close>

datatype json =
    JNull
  | JBool bool
  | JNumber real
  | JString string
  | JArray "json list"
  | JObject "(string \<times> json) list"

type_synonym jsobject = "(string \<times> json) list"

text \<open>
  An object of counters (\<open>clicks\<close>, \<open>timeOnSections\<close>, \<open>sectionViews\<close>) is the list of its
  own properties in insertion order.
\<close>

type_synonym counters = "(string \<times> int number) list"

text \<open>
  Reading \<open>obj[k]\<close> finds an own property, or else a member that every object literal
  inherits from \<open>Object.prototype\<close>, or else \<open>undefined\<close>.
\<close>

definition Object_prototype_names :: "string list" where
  "Object_prototype_names =
     [''constructor'', ''hasOwnProperty'', ''isPrototypeOf'', ''propertyIsEnumerable'',
      ''toLocaleString'', ''toString'', ''valueOf'', ''__proto__'',
      ''__defineGetter__'', ''__defineSetter__'', ''__lookupGetter__'', ''__lookupSetter__'']"

datatype property = Own "int number" | Inherited | Undefined

definition js_get :: "counters \<Rightarrow> string \<Rightarrow> property" where
  "js_get obj k =
     (case map_of obj k of
        Some v \<Rightarrow> Own v
      | None \<Rightarrow> if k \<in> set Object_prototype_names then Inherited else Undefined)"

text \<open>
  \<open>obj[k] += d\<close> (and \<open>obj[k]++\<close> with \<open>d = 1\<close>). An own integer is increased in place and an
  own \<open>null\<close> becomes \<open>d\<close>. Any other operand gives a non-number, stored as an own property
  \<open>k\<close> (appended when \<open>k\<close> was not an own property); assigning a non-object to \<open>__proto__\<close>
  is ignored. (For an inherited member \<open>++\<close> gives \<open>NaN\<close>, and \<open>+=\<close> a string that no
  arithmetic turns into a number again; counters hold no strings in the model, which
  writes \<open>NaN\<close> for both.)
\<close>

definition js_add_assign :: "counters \<Rightarrow> string \<Rightarrow> int \<Rightarrow> counters" where
  "js_add_assign obj k d =
     (case js_get obj k of
        Own (Num n) \<Rightarrow> AList.update k (Num (n + d)) obj
      | Own Null \<Rightarrow> AList.update k (Num d) obj
      | Own NaN \<Rightarrow> obj
      | Inherited \<Rightarrow> if k = ''__proto__'' then obj else AList.update k NaN obj
      | Undefined \<Rightarrow> AList.update k NaN obj)"

text \<open>\<open>Object.values(obj).reduce((a, b) => a + b, 0)\<close>\<close>

fun js_plus :: "int number \<Rightarrow> int number \<Rightarrow> int number" where
  "js_plus (Num a) (Num b) = Num (a + b)"
| "js_plus (Num a) Null = Num a"
| "js_plus Null (Num b) = Num b"
| "js_plus Null Null = Num 0"
| "js_plus _ _ = NaN"

definition sum_values :: "counters \<Rightarrow> int number" where
  "sum_values obj = foldl js_plus (Num 0) (map snd obj)"

text \<open>\<open>{...base, ...extra}\<close>: a later property replaces the value of an earlier one of the
  same name and keeps its position.\<close>

definition spread :: "jsobject \<Rightarrow> jsobject \<Rightarrow> jsobject" where
  "spread base extra = foldl (\<lambda>acc kv. AList.update (fst kv) (snd kv) acc) base extra"

text \<open>\<open>xs.slice(-n)\<close>\<close>

definition slice_last :: "nat \<Rightarrow> 'a list \<Rightarrow> 'a list" where
  "slice_last n xs = drop (length xs - n) xs"

text \<open>The values that a condition treats as false.\<close>

definition falsy :: "json \<Rightarrow> bool" where
  "falsy j = (j = JNull \<or> j = JBool False \<or> j = JNumber 0 \<or> j = JString [])"

section \<open>The interaction record\<close>

record interactionData =
  clicks :: counters
  scrollDepth :: int
  timeOnSections :: counters
  themePreference :: string
  lastVisit :: "string option"
  visitCount :: int
  sectionViews :: counters
  interactions :: "jsobject list"

text \<open>The literal of the constructor (lines 6--33).\<close>

definition defaultData :: interactionData where
  "defaultData =
     \<lparr> clicks = [(''projects'', Num 0), (''contact'', Num 0), (''about'', Num 0),
                 (''themeToggle'', Num 0), (''social'', Num 0), (''cta'', Num 0),
                 (''navigation'', Num 0)],
       scrollDepth = 0,
       timeOnSections = [(''home'', Num 0), (''about'', Num 0), (''projects'', Num 0),
                         (''contact'', Num 0)],
       themePreference = ''light'',
       lastVisit = None,
       visitCount = 0,
       sectionViews = [(''home'', Num 0), (''about'', Num 0), (''projects'', Num 0),
                       (''contact'', Num 0)],
       interactions = [] \<rparr>"

subsection \<open>The record as JSON\<close>

text \<open>
  What \<open>JSON.stringify\<close> writes for the record: a number that is not finite is written
  \<open>null\<close>, everything else as it is. The fields are listed in the order of the literal of
  the constructor; the literal of \<open>resetData\<close> lists them in another order, which nothing
  that reads the text depends on.
\<close>

definition number_json :: "int number \<Rightarrow> json" where
  "number_json v = (case v of Num n \<Rightarrow> JNumber (real_of_int n) | _ \<Rightarrow> JNull)"

definition counters_json :: "counters \<Rightarrow> json" where
  "counters_json obj = JObject (map (\<lambda>kv. (fst kv, number_json (snd kv))) obj)"

definition toJSON :: "interactionData \<Rightarrow> json" where
  "toJSON d =
     JObject
       [(''clicks'', counters_json (clicks d)),
        (''scrollDepth'', JNumber (real_of_int (scrollDepth d))),
        (''timeOnSections'', counters_json (timeOnSections d)),
        (''themePreference'', JString (themePreference d)),
        (''lastVisit'', case lastVisit d of None \<Rightarrow> JNull | Some s \<Rightarrow> JString s),
        (''visitCount'', JNumber (real_of_int (visitCount d))),
        (''sectionViews'', counters_json (sectionViews d)),
        (''interactions'', JArray (map JObject (interactions d)))]"

text \<open>
  Reading a parsed value as a record of this shape: an object with the eight fields,
  whose counters are integers or \<open>null\<close>. \<open>None\<close> for every other value.
\<close>

definition json_get :: "json \<Rightarrow> string \<Rightarrow> json option" where
  "json_get j k = (case j of JObject kvs \<Rightarrow> map_of kvs k | _ \<Rightarrow> None)"

definition as_int :: "json \<Rightarrow> int option" where
  "as_int j =
     (case j of
        JNumber r \<Rightarrow> if real_of_int \<lfloor>r\<rfloor> = r then Some \<lfloor>r\<rfloor> else None
      | _ \<Rightarrow> None)"

definition as_string :: "json \<Rightarrow> string option" where
  "as_string j = (case j of JString s \<Rightarrow> Some s | _ \<Rightarrow> None)"

definition as_counter :: "json \<Rightarrow> int number option" where
  "as_counter j = (case j of JNull \<Rightarrow> Some Null | _ \<Rightarrow> map_option Num (as_int j))"

definition as_counters :: "json \<Rightarrow> counters option" where
  "as_counters j =
     (case j of
        JObject kvs \<Rightarrow>
          those (map (\<lambda>kv. map_option (\<lambda>v. (fst kv, v)) (as_counter (snd kv))) kvs)
      | _ \<Rightarrow> None)"

definition as_objects :: "json \<Rightarrow> jsobject list option" where
  "as_objects j =
     (case j of
        JArray xs \<Rightarrow> those (map (\<lambda>x. case x of JObject kvs \<Rightarrow> Some kvs | _ \<Rightarrow> None) xs)
      | _ \<Rightarrow> None)"

definition as_lastVisit :: "json \<Rightarrow> string option option" where
  "as_lastVisit j = (case j of JNull \<Rightarrow> Some None | JString s \<Rightarrow> Some (Some s) | _ \<Rightarrow> None)"

definition fromJSON :: "json \<Rightarrow> interactionData option" where
  "fromJSON j =
     (case (Option.bind (json_get j ''clicks'') as_counters,
            Option.bind (json_get j ''scrollDepth'') as_int,
            Option.bind (json_get j ''timeOnSections'') as_counters,
            Option.bind (json_get j ''themePreference'') as_string,
            Option.bind (json_get j ''lastVisit'') as_lastVisit,
            Option.bind (json_get j ''visitCount'') as_int,
            Option.bind (json_get j ''sectionViews'') as_counters,
            Option.bind (json_get j ''interactions'') as_objects) of
        (Some c, Some s, Some t, Some p, Some l, Some v, Some sv, Some i) \<Rightarrow>
          Some \<lparr> clicks = c, scrollDepth = s, timeOnSections = t, themePreference = p,
                 lastVisit = l, visitCount = v, sectionViews = sv, interactions = i \<rparr>
      | _ \<Rightarrow> None)"

section \<open>The browser\<close>

datatype error = SyntaxError | QuotaExceededError | SecurityError | TypeError

datatype storageHealth = Available | Full | Denied

text \<open>
  A string in the storage is represented by what \<open>JSON.parse\<close> makes of it: the value
  that it denotes, or, for a string that is not JSON text (the empty string is one), the
  string itself. \<open>JSON.stringify\<close> of a value is then the text \<open>Json\<close> of the value.
\<close>

datatype stored = Json json | NotJson string

definition JSON_parse :: "stored \<Rightarrow> error + json" where
  "JSON_parse s = (case s of Json j \<Rightarrow> Inr j | NotJson t \<Rightarrow> Inl SyntaxError)"

text \<open>
  What the page takes from the platform and does not change: the system clock (the value
  of its \<open>n\<close>-th reading) and the two renderings of an instant.
\<close>

record platform =
  clock :: "nat \<Rightarrow> int"
  toDateString :: "int \<Rightarrow> string"
  toISOString :: "int \<Rightarrow> string"

text \<open>
  The state of one page: the fields of the tracker, the fields of the evolution engine,
  and the part of the browser they touch. \<open>evolutionHistory\<close> is whatever value the
  constructor of the engine read from the storage. \<open>ticks\<close> counts the readings of the
  clock so far. \<open>textWrites\<close> lists the assignments to \<open>textContent\<close> of the three buttons
  and \<open>actionTrace\<close> the calls of \<open>rule.action()\<close> with the reading of the clock that the
  cooldown test used; both are observations added to the model, read by no operation.
\<close>

record page =
  data :: interactionData
  currentSection :: string
  sectionStartTime :: int
  maxScrollDepth :: real
  evolutionHistory :: json
  lastAppliedTimes :: "string \<rightharpoonup> int"
  currentEvolutions :: "string set"
  localStorage :: "string \<rightharpoonup> stored"
  storage :: storageHealth
  warnings :: "string list"
  ticks :: nat
  sectionsMovable :: bool
  darkThemeClass :: bool
  contactHeroSpan :: "string option"
  exploreProjectsSpan :: "string option"
  submitContactSpan :: "string option"
  textWrites :: "(string \<times> string) list"
  actionTrace :: "(string \<times> int) list"

text \<open>How a call ends: it returns, or it throws; either way it leaves a page.\<close>

datatype completion = Returned page | Threw error page

fun page_of :: "completion \<Rightarrow> page" where
  "page_of (Returned w) = w"
| "page_of (Threw e w) = w"

fun returned :: "completion \<Rightarrow> bool" where
  "returned (Returned w) = True"
| "returned (Threw e w) = False"

definition Date_now :: "platform \<Rightarrow> page \<Rightarrow> int \<times> page" where
  "Date_now P w = (clock P (ticks w), w\<lparr>ticks := Suc (ticks w)\<rparr>)"

definition localStorage_setItem :: "string \<Rightarrow> stored \<Rightarrow> page \<Rightarrow> error + page" where
  "localStorage_setItem k v w =
     (case storage w of
        Denied \<Rightarrow> Inl SecurityError
      | Full \<Rightarrow> Inl QuotaExceededError
      | Available \<Rightarrow> Inr (w\<lparr>localStorage := (localStorage w)(k \<mapsto> v)\<rparr>))"

definition localStorage_getItem :: "string \<Rightarrow> page \<Rightarrow> error + stored option" where
  "localStorage_getItem k w =
     (case storage w of
        Denied \<Rightarrow> Inl SecurityError
      | _ \<Rightarrow> Inr (localStorage w k))"

definition console_warn :: "string \<Rightarrow> page \<Rightarrow> page" where
  "console_warn msg w = w\<lparr>warnings := warnings w @ [msg]\<rparr>"

section \<open>InteractionTracker\<close>

text \<open>In \<open>saveData\<close> the call that can throw is \<open>setItem\<close>: \<open>JSON.stringify\<close> does not throw on
  a record of this type. The \<open>catch\<close> block logs the warning.\<close>

definition saveData :: "page \<Rightarrow> page" where
  "saveData w =
     (case localStorage_setItem ''portfolioInteractionData'' (Json (toJSON (data w))) w of
        Inr w' \<Rightarrow> w'
      | Inl e \<Rightarrow> console_warn ''Could not save interaction data:'' w)"

text \<open>\<open>loadData\<close> returns what \<open>JSON.parse\<close> gives, or \<open>null\<close>.\<close>

definition loadData :: "page \<Rightarrow> json \<times> page" where
  "loadData w =
     (case localStorage_getItem ''portfolioInteractionData'' w of
        Inl e \<Rightarrow> (JNull, console_warn ''Could not load interaction data:'' w)
      | Inr None \<Rightarrow> (JNull, w)
      | Inr (Some saved) \<Rightarrow>
          if saved = NotJson [] then (JNull, w)
          else (case JSON_parse saved of
                  Inl e \<Rightarrow> (JNull, console_warn ''Could not load interaction data:'' w)
                | Inr j \<Rightarrow> (j, w)))"

definition getData :: "page \<Rightarrow> interactionData" where
  "getData w = data w"

definition trackInteraction :: "platform \<Rightarrow> string \<Rightarrow> jsobject \<Rightarrow> page \<Rightarrow> page" where
  "trackInteraction P type dat w =
     (let (now, w1) = Date_now P w;
          entry = spread [(''type'', JString type), (''timestamp'', JNumber (real_of_int now))] dat;
          pushed = interactions (data w1) @ [entry];
          kept = (if length pushed > 1000 then slice_last 1000 pushed else pushed)
      in w1\<lparr>data := (data w1)\<lparr>interactions := kept\<rparr>\<rparr>)"

definition trackSectionView :: "platform \<Rightarrow> string \<Rightarrow> page \<Rightarrow> page" where
  "trackSectionView P section w =
     (let views = sectionViews (data w);
          views1 = (if js_get views section \<noteq> Undefined
                    then js_add_assign views section 1 else views)
      in trackInteraction P ''section_view'' [(''section'', JString section)]
           (w\<lparr>data := (data w)\<lparr>sectionViews := views1\<rparr>\<rparr>))"

text \<open>\<open>target\<close> is \<open>None\<close> for \<open>null\<close>; \<open>target && ...\<close> also rejects the empty string.\<close>

definition trackClick ::
  "platform \<Rightarrow> string \<Rightarrow> string option \<Rightarrow> jsobject \<Rightarrow> page \<Rightarrow> page" where
  "trackClick P type target metadata w =
     (let c0 = clicks (data w);
          c1 = (if js_get c0 type \<noteq> Undefined then js_add_assign c0 type 1 else c0);
          c2 = (case target of
                  None \<Rightarrow> c1
                | Some t \<Rightarrow>
                    if t \<noteq> [] \<and> js_get c1 t \<noteq> Undefined
                    then js_add_assign c1 t 1 else c1);
          w1 = w\<lparr>data := (data w)\<lparr>clicks := c2\<rparr>\<rparr>;
          w2 = trackInteraction P ''click''
                 (spread [(''type'', JString type),
                          (''target'', case target of None \<Rightarrow> JNull | Some t \<Rightarrow> JString t)]
                    metadata) w1
      in saveData w2)"

definition trackThemePreference :: "platform \<Rightarrow> string \<Rightarrow> page \<Rightarrow> page" where
  "trackThemePreference P preference w =
     saveData
       (trackInteraction P ''theme_change'' [(''preference'', JString preference)]
          (w\<lparr>data := (data w)\<lparr>themePreference := preference\<rparr>\<rparr>))"

definition updateSectionTime :: "platform \<Rightarrow> page \<Rightarrow> page" where
  "updateSectionTime P w =
     (let (now, w1) = Date_now P w;
          timeSpent = now - sectionStartTime w1
      in w1\<lparr>data := (data w1)\<lparr>timeOnSections :=
                js_add_assign (timeOnSections (data w1)) (currentSection w1) timeSpent\<rparr>,
             sectionStartTime := now\<rparr>)"

definition incrementVisitCount :: "platform \<Rightarrow> page \<Rightarrow> page" where
  "incrementVisitCount P w =
     (let (now, w1) = Date_now P w;
          today = toDateString P now
      in if lastVisit (data w1) \<noteq> Some today
         then saveData
                (trackInteraction P ''visit'' []
                   (w1\<lparr>data := (data w1)\<lparr>visitCount := visitCount (data w1) + 1,
                                           lastVisit := Some today\<rparr>\<rparr>))
         else w1)"

text \<open>The score is computed on doubles; the model gives the value of the expression in
  exact arithmetic, and \<open>NaN\<close> when a counter is not a number.\<close>

definition getEngagementScore :: "interactionData \<Rightarrow> real number" where
  "getEngagementScore d =
     (case (sum_values (clicks d), sum_values (timeOnSections d)) of
        (Num c, Num ms) \<Rightarrow>
          Num (real_of_int c * (3 / 10) + (real_of_int ms / 1000) * (4 / 10)
               + real_of_int (scrollDepth d) * (3 / 10))
      | _ \<Rightarrow> NaN)"

definition resetData :: "platform \<Rightarrow> page \<Rightarrow> page" where
  "resetData P w =
     (let (now, w1) = Date_now P w
      in saveData
           (w1\<lparr>data := defaultData\<lparr>lastVisit := Some (toDateString P now),
                                     visitCount := 1\<rparr>\<rparr>))"

text \<open>The scroll listener of \<open>setupScrollTracking\<close>, given the fraction of the document
  scrolled past, and the callback that it schedules. \<open>Math.round\<close> rounds halves up.\<close>

definition onScroll :: "real \<Rightarrow> page \<Rightarrow> page" where
  "onScroll depth w =
     (if depth > maxScrollDepth w
      then w\<lparr>maxScrollDepth := depth,
             data := (data w)\<lparr>scrollDepth := \<lfloor>depth * 100 + 1 / 2\<rfloor>\<rparr>\<rparr>
      else w)"

definition onScrollSettled :: "platform \<Rightarrow> page \<Rightarrow> page" where
  "onScrollSettled P w =
     trackInteraction P ''scroll''
       [(''depth'', JNumber (real_of_int (scrollDepth (data w))))] w"

text \<open>The observer callback of \<open>setupSectionTracking\<close> for a section that became visible.\<close>

definition onSectionVisible :: "platform \<Rightarrow> string \<Rightarrow> page \<Rightarrow> page" where
  "onSectionVisible P ident w =
     (let w1 = updateSectionTime P w;
          w2 = w1\<lparr>currentSection := ident\<rparr>;
          (now, w3) = Date_now P w2
      in trackSectionView P ident (w3\<lparr>sectionStartTime := now\<rparr>))"

definition onBeforeUnload :: "platform \<Rightarrow> page \<Rightarrow> page" where
  "onBeforeUnload P w = saveData (updateSectionTime P w)"

text \<open>The click listener of \<open>setupInteractionTracking\<close>; \<open>element\<close> holds the properties
  read from the event (\<open>tag\<close>, \<open>class\<close>, \<open>id\<close>, \<open>text\<close>, \<open>position\<close>).\<close>

definition onDocumentClick :: "platform \<Rightarrow> jsobject \<Rightarrow> page \<Rightarrow> page" where
  "onDocumentClick P element w =
     (let (now, w1) = Date_now P w;
          elementData = spread element [(''timestamp'', JNumber (real_of_int now))];
          pushed = interactions (data w1) @ [spread [(''type'', JString ''click'')] elementData];
          kept = (if length pushed > 1000 then slice_last 1000 pushed else pushed)
      in w1\<lparr>data := (data w1)\<lparr>interactions := kept\<rparr>\<rparr>)"

text \<open>
  The constructor: the assignments of lines 6--37, then \<open>init\<close>, whose three \<open>setup\<close>
  calls only register the listeners above. \<open>this.loadData() || {...}\<close> takes the literal
  when the loaded value is \<open>null\<close> or another value that counts as false. A loaded value
  that counts as true becomes \<open>this.data\<close> whatever it is; the model follows the
  constructor when the value is a record of the shape of the literal, and gives \<open>None\<close>
  when it is not.
\<close>

definition tracker_fields :: "platform \<Rightarrow> page \<Rightarrow> page option" where
  "tracker_fields P w =
     (let (loaded, w1) = loadData w;
          (now, w2) = Date_now P (w1\<lparr>currentSection := ''home''\<rparr>);
          w3 = w2\<lparr>sectionStartTime := now, maxScrollDepth := 0\<rparr>
      in if falsy loaded then Some (w3\<lparr>data := defaultData\<rparr>)
         else map_option (\<lambda>d. w3\<lparr>data := d\<rparr>) (fromJSON loaded))"

definition tracker_init :: "platform \<Rightarrow> page \<Rightarrow> page" where
  "tracker_init P w = incrementVisitCount P w"

definition InteractionTracker :: "platform \<Rightarrow> page \<Rightarrow> page option" where
  "InteractionTracker P w = map_option (tracker_init P) (tracker_fields P w)"

section \<open>EvolutionEngine\<close>

definition saveEvolutionHistory :: "page \<Rightarrow> page" where
  "saveEvolutionHistory w =
     (case localStorage_setItem ''evolutionHistory'' (Json (evolutionHistory w)) w of
        Inr w' \<Rightarrow> w'
      | Inl e \<Rightarrow> console_warn ''Could not save evolution history:'' w)"

text \<open>\<open>loadEvolutionHistory\<close> returns what \<open>JSON.parse\<close> gives, which need not be an array,
  or the empty array.\<close>

definition loadEvolutionHistory :: "page \<Rightarrow> json \<times> page" where
  "loadEvolutionHistory w =
     (case localStorage_getItem ''evolutionHistory'' w of
        Inl e \<Rightarrow> (JArray [], console_warn ''Could not load evolution history:'' w)
      | Inr None \<Rightarrow> (JArray [], w)
      | Inr (Some saved) \<Rightarrow>
          if saved = NotJson [] then (JArray [], w)
          else (case JSON_parse saved of
                  Inl e \<Rightarrow> (JArray [], console_warn ''Could not load evolution history:'' w)
                | Inr j \<Rightarrow> (j, w)))"

text \<open>
  The entry that \<open>logEvolution\<close> builds, as the JSON value that it is serialised to:
  \<open>data\<close> is the copy that \<open>JSON.parse(JSON.stringify(...))\<close> makes of the record, and a score
  that is not a number is written \<open>null\<close>. The code reads no entry of the history again.
\<close>

definition evolutionEvent :: "platform \<Rightarrow> int \<Rightarrow> string \<Rightarrow> interactionData \<Rightarrow> json" where
  "evolutionEvent P now descr d =
     JObject
       [(''timestamp'', JString (toISOString P now)),
        (''description'', JString descr),
        (''data'', toJSON d),
        (''engagementScore'',
           case getEngagementScore d of Num r \<Rightarrow> JNumber r | _ \<Rightarrow> JNull)]"

text \<open>
  \<open>this.evolutionHistory.push(...)\<close> is outside every \<open>try\<close>: on a history that is not an
  array it throws a \<open>TypeError\<close>, after the entry has been built.
\<close>

definition logEvolution :: "platform \<Rightarrow> string \<Rightarrow> page \<Rightarrow> completion" where
  "logEvolution P descr w =
     (let (now, w1) = Date_now P w;
          event = evolutionEvent P now descr (getData w1)
      in case evolutionHistory w1 of
           JArray h \<Rightarrow>
             (let pushed = h @ [event];
                  kept = (if length pushed > 100 then slice_last 100 pushed else pushed)
              in Returned (saveEvolutionHistory (w1\<lparr>evolutionHistory := JArray kept\<rparr>)))
         | _ \<Rightarrow> Threw TypeError w1)"

text \<open>
  The five actions. Of the document they change, the model keeps what a guard reads
  (\<open>sectionsMovable\<close>: both sections and their container exist and \<open>projects\<close> is not
  directly before \<open>about\<close>; \<open>darkThemeClass\<close>) and the text of the three buttons (\<open>None\<close>
  when the button or its \<open>span\<close> is missing). Styles, the appended content, the notice and
  the timers that finish the transitions change nothing that the tracker or the engine
  reads, and are left out. Each action calls \<open>logEvolution\<close> after its changes to the
  document, and ends as that call ends.
\<close>

definition moveProjectsUp :: "platform \<Rightarrow> page \<Rightarrow> completion" where
  "moveProjectsUp P w =
     (if sectionsMovable w
      then logEvolution P ''Projects section moved up based on your interest!'' w
      else Returned w)"

definition seeMyWork :: string where
  "seeMyWork = ''See My Work '' @ [CHR 0xC3, CHR 0xA2, CHR 0xE2, CHR 0x80, CHR 0xA0,
                                   CHR 0xE2, CHR 0x80, CHR 0x99]"

definition setSpanText ::
  "string \<Rightarrow> string \<Rightarrow> string option \<Rightarrow> (string \<times> string) list
     \<Rightarrow> string option \<times> (string \<times> string) list" where
  "setSpanText button txt el writes =
     (case el of
        None \<Rightarrow> (None, writes)
      | Some old \<Rightarrow> (Some txt, writes @ [(button, txt)]))"

definition optimizeCTA :: "platform \<Rightarrow> page \<Rightarrow> completion" where
  "optimizeCTA P w =
     (let (s1, t1) = setSpanText ''contactHero'' ''Let's Build Together!''
                       (contactHeroSpan w) (textWrites w);
          (s2, t2) = setSpanText ''exploreProjects'' seeMyWork (exploreProjectsSpan w) t1;
          (s3, t3) = setSpanText ''.contact-form .btn-primary'' ''Send Message Now!''
                       (submitContactSpan w) t2
      in logEvolution P ''CTA buttons optimized based on engagement!''
           (w\<lparr>contactHeroSpan := s1, exploreProjectsSpan := s2, submitContactSpan := s3,
              textWrites := t3\<rparr>))"

definition setDarkThemeDefault :: "platform \<Rightarrow> page \<Rightarrow> completion" where
  "setDarkThemeDefault P w =
     (if \<not> darkThemeClass w
      then logEvolution P ''Dark theme set as default based on user preference!''
             (trackThemePreference P ''dark'' (w\<lparr>darkThemeClass := True\<rparr>))
      else Returned w)"

definition highlightPopularProject :: "platform \<Rightarrow> page \<Rightarrow> completion" where
  "highlightPopularProject P w =
     logEvolution P ''Projects highlighted based on user interest!'' w"

definition revealAdditionalContent :: "platform \<Rightarrow> page \<Rightarrow> completion" where
  "revealAdditionalContent P w =
     logEvolution P ''Additional content revealed due to deep engagement!'' w"

text \<open>Reading a counter for a comparison: \<open>undefined\<close> converts to \<open>NaN\<close> and \<open>null\<close> to 0,
  and a comparison with \<open>NaN\<close> is false.\<close>

definition counter :: "counters \<Rightarrow> string \<Rightarrow> int number" where
  "counter obj k = (case js_get obj k of Own v \<Rightarrow> v | _ \<Rightarrow> NaN)"

fun js_gt :: "int number \<Rightarrow> int number \<Rightarrow> bool" where
  "js_gt (Num a) (Num b) = (a > b)"
| "js_gt (Num a) Null = (a > 0)"
| "js_gt Null (Num b) = (0 > b)"
| "js_gt _ _ = False"

record rule =
  name :: string
  condition :: "interactionData \<Rightarrow> bool"
  action :: "platform \<Rightarrow> page \<Rightarrow> completion"
  cooldown :: int

definition setupEvolutionRules :: "rule list" where
  "setupEvolutionRules =
     [ \<lparr> name = ''projects_priority'',
         condition = (\<lambda>d.
           js_gt (counter (clicks d) ''projects'') (js_plus (counter (clicks d) ''about'') (Num 2))
           \<and> js_gt (counter (timeOnSections d) ''projects'')
                   (counter (timeOnSections d) ''about'')),
         action = moveProjectsUp,
         cooldown = 30000 \<rparr>,
       \<lparr> name = ''cta_optimization'',
         condition = (\<lambda>d.
           js_gt (counter (clicks d) ''cta'') (Num 3)
           \<or> js_gt (counter (clicks d) ''contact'') (Num 5)),
         action = optimizeCTA,
         cooldown = 45000 \<rparr>,
       \<lparr> name = ''dark_theme_default'',
         condition = (\<lambda>d.
           js_gt (counter (clicks d) ''themeToggle'') (Num 1) \<and> themePreference d = ''dark''),
         action = setDarkThemeDefault,
         cooldown = 60000 \<rparr>,
       \<lparr> name = ''project_highlight'',
         condition = (\<lambda>d. js_gt (counter (clicks d) ''projects'') (Num 8)),
         action = highlightPopularProject,
         cooldown = 25000 \<rparr>,
       \<lparr> name = ''content_reveal'',
         condition = (\<lambda>d. scrollDepth d > 70),
         action = revealAdditionalContent,
         cooldown = 30000 \<rparr> ]"

definition shouldApplyRule :: "platform \<Rightarrow> rule \<Rightarrow> interactionData \<Rightarrow> page \<Rightarrow> bool \<times> page" where
  "shouldApplyRule P r d w =
     (let lastApplied = (case lastAppliedTimes w (name r) of Some t \<Rightarrow> t | None \<Rightarrow> 0);
          (now, w1) = Date_now P w;
          cooldownPassed = (now - lastApplied > cooldown r);
          notCurrentlyActive = (name r \<notin> currentEvolutions w1)
      in (condition r d \<and> cooldownPassed \<and> notCurrentlyActive, w1))"

text \<open>
  The body of the \<open>forEach\<close> of \<open>checkEvolutionRules\<close>. The constant \<open>data\<close> of the source
  refers to the record of the tracker, which the actions change in place, so each rule
  reads the record of the current state. When \<open>rule.action()\<close> throws, the two statements
  after it are not executed.
\<close>

definition applyIfDue :: "platform \<Rightarrow> page \<Rightarrow> rule \<Rightarrow> completion" where
  "applyIfDue P w r =
     (let (due, w1) = shouldApplyRule P r (getData w) w
      in if due
         then (case action r P
                      (w1\<lparr>actionTrace := actionTrace w1 @ [(name r, clock P (ticks w))]\<rparr>) of
                 Threw e w2 \<Rightarrow> Threw e w2
               | Returned w2 \<Rightarrow>
                   (let w3 = w2\<lparr>currentEvolutions := insert (name r) (currentEvolutions w2)\<rparr>;
                        (now, w4) = Date_now P w3
                    in Returned (w4\<lparr>lastAppliedTimes := (lastAppliedTimes w4)(name r \<mapsto> now)\<rparr>)))
         else Returned w1)"

text \<open>\<open>xs.forEach(f)\<close>: an exception thrown by \<open>f\<close> ends the loop.\<close>

fun forEach :: "(page \<Rightarrow> 'a \<Rightarrow> completion) \<Rightarrow> page \<Rightarrow> 'a list \<Rightarrow> completion" where
  "forEach f w [] = Returned w"
| "forEach f w (x # xs) =
     (case f w x of
        Returned w' \<Rightarrow> forEach f w' xs
      | Threw e w' \<Rightarrow> Threw e w')"

definition checkEvolutionRules :: "platform \<Rightarrow> page \<Rightarrow> completion" where
  "checkEvolutionRules P w = forEach (applyIfDue P) w setupEvolutionRules"

text \<open>The constructor of the engine; its \<open>init\<close> evaluates the rules once and then
  registers the timer and the click listener that evaluate them again.\<close>

definition EvolutionEngine :: "platform \<Rightarrow> page \<Rightarrow> completion" where
  "EvolutionEngine P w =
     (let (history, w1) = loadEvolutionHistory w
      in checkEvolutionRules P
           (w1\<lparr>evolutionHistory := history, lastAppliedTimes := Map.empty,
               currentEvolutions := {}, actionTrace := []\<rparr>))"

section \<open>A session\<close>

text \<open>
  What can happen on a page after it has loaded: a call of a method of the tracker, one
  of its listeners, an evaluation of the rules by the timer or the click listener of the
  engine, or a change of the environment. An exception that an evaluation throws ends
  that callback and leaves the page as it is then.
\<close>

datatype event =
    TrackClick string "string option" jsobject
  | TrackSectionView string
  | TrackInteraction string jsobject
  | TrackThemePreference string
  | UpdateSectionTime
  | IncrementVisitCount
  | SaveData
  | ResetData
  | Scroll real
  | ScrollSettled
  | SectionVisible string
  | BeforeUnload
  | DocumentClick jsobject
  | CheckEvolutionRules
  | StorageBecomes storageHealth
  | DocumentBecomes bool bool

fun step :: "platform \<Rightarrow> page \<Rightarrow> event \<Rightarrow> page" where
  "step P w (TrackClick type target metadata) = trackClick P type target metadata w"
| "step P w (TrackSectionView section) = trackSectionView P section w"
| "step P w (TrackInteraction type dat) = trackInteraction P type dat w"
| "step P w (TrackThemePreference preference) = trackThemePreference P preference w"
| "step P w UpdateSectionTime = updateSectionTime P w"
| "step P w IncrementVisitCount = incrementVisitCount P w"
| "step P w SaveData = saveData w"
| "step P w ResetData = resetData P w"
| "step P w (Scroll depth) = onScroll depth w"
| "step P w ScrollSettled = onScrollSettled P w"
| "step P w (SectionVisible ident) = onSectionVisible P ident w"
| "step P w BeforeUnload = onBeforeUnload P w"
| "step P w (DocumentClick element) = onDocumentClick P element w"
| "step P w CheckEvolutionRules = page_of (checkEvolutionRules P w)"
| "step P w (StorageBecomes h) = w\<lparr>storage := h\<rparr>"
| "step P w (DocumentBecomes movable dark) = w\<lparr>sectionsMovable := movable, darkThemeClass := dark\<rparr>"

definition run :: "platform \<Rightarrow> page \<Rightarrow> event list \<Rightarrow> page" where
  "run P w es = foldl (step P) w es"

section \<open>Notions used in the statements and proofs\<close>

text \<open>The calls of the action of the rule named \<open>n\<close> so far.\<close>

definition calls :: "string \<Rightarrow> page \<Rightarrow> (string \<times> int) list" where
  "calls n w = filter (\<lambda>e. fst e = n) (actionTrace w)"

text \<open>The value is an array.\<close>

definition is_array :: "json \<Rightarrow> bool" where
  "is_array j = (case j of JArray xs \<Rightarrow> True | _ \<Rightarrow> False)"

text \<open>What the operations of the tracker leave alone, and what the actions leave alone.\<close>

definition engine_frame :: "page \<Rightarrow> page \<Rightarrow> bool" where
  "engine_frame w w' =
     (evolutionHistory w' = evolutionHistory w \<and> lastAppliedTimes w' = lastAppliedTimes w
      \<and> currentEvolutions w' = currentEvolutions w \<and> storage w' = storage w
      \<and> sectionsMovable w' = sectionsMovable w \<and> darkThemeClass w' = darkThemeClass w
      \<and> contactHeroSpan w' = contactHeroSpan w \<and> exploreProjectsSpan w' = exploreProjectsSpan w
      \<and> submitContactSpan w' = submitContactSpan w \<and> textWrites w' = textWrites w
      \<and> actionTrace w' = actionTrace w)"

definition rules_frame :: "page \<Rightarrow> page \<Rightarrow> bool" where
  "rules_frame w w' =
     (lastAppliedTimes w' = lastAppliedTimes w \<and> currentEvolutions w' = currentEvolutions w
      \<and> actionTrace w' = actionTrace w)"

text \<open>The three buttons and the list of the writes to them are the same.\<close>

definition labels_frame :: "page \<Rightarrow> page \<Rightarrow> bool" where
  "labels_frame w w' =
     (contactHeroSpan w' = contactHeroSpan w \<and> exploreProjectsSpan w' = exploreProjectsSpan w
      \<and> submitContactSpan w' = submitContactSpan w \<and> textWrites w' = textWrites w)"

text \<open>The history is an array, every rule whose action was called is active, and no rule
  was called twice.\<close>

definition fired_inv :: "page \<Rightarrow> bool" where
  "fired_inv w =
     (is_array (evolutionHistory w)
      \<and> fst ` set (actionTrace w) \<subseteq> currentEvolutions w \<and> distinct (map fst (actionTrace w)))"

text \<open>No numeric counter of the first object is smaller or missing in the second.\<close>

definition counters_le :: "counters \<Rightarrow> counters \<Rightarrow> bool" where
  "counters_le c c' =
     (\<forall>k a. map_of c k = Some (Num a) \<longrightarrow> (\<exists>b. map_of c' k = Some (Num b) \<and> a \<le> b))"

text \<open>The table of rules, split at \<open>cta_optimization\<close>.\<close>

definition projectsRule :: rule where
  "projectsRule = setupEvolutionRules ! 0"

definition ctaRule :: rule where
  "ctaRule = setupEvolutionRules ! 1"

definition laterRules :: "rule list" where
  "laterRules = drop 2 setupEvolutionRules"

text \<open>Four clicks on a call-to-action button.\<close>

definition fourCtaClicks :: "event list" where
  "fourCtaClicks = [TrackClick ''cta'' None [], TrackClick ''cta'' None [],
                    TrackClick ''cta'' None [], TrackClick ''cta'' None []]"

text \<open>The three assignments of \<open>optimizeCTA\<close>.\<close>

definition ctaLabels :: "(string \<times> string) list" where
  "ctaLabels = [(''contactHero'', ''Let's Build Together!''),
                (''exploreProjects'', seeMyWork),
                (''.contact-form .btn-primary'', ''Send Message Now!'')]"




section \<open>Example inputs\<close>

text \<open>A platform with a clock that starts on 14 November 2023 at 22:13:20 UTC and advances
  by one second per reading, and which renders every instant as that one.\<close>

definition testPlatform :: platform where
  "testPlatform =
     \<lparr> clock = (\<lambda>n. 1700000000000 + 1000 * int n),
       toDateString = (\<lambda>t. ''Tue Nov 14 2023''),
       toISOString = (\<lambda>t. ''2023-11-14T22:13:20.000Z'') \<rparr>"

text \<open>A page with the default record, empty storage and the three buttons present, on
  which the section \<open>home\<close> is in view since the first reading of that clock.\<close>

definition blankPage :: page where
  "blankPage =
     \<lparr> data = defaultData, currentSection = ''home'', sectionStartTime = 1700000000000,
       maxScrollDepth = 0, evolutionHistory = JArray [], lastAppliedTimes = Map.empty,
       currentEvolutions = {}, localStorage = Map.empty, storage = Available, warnings = [],
       ticks = 0, sectionsMovable = True, darkThemeClass = False,
       contactHeroSpan = Some ''Contact Me'', exploreProjectsSpan = Some ''Explore Projects'',
       submitContactSpan = Some ''Send Message'', textWrites = [], actionTrace = [] \<rparr>"

text \<open>Ten clicks, five seconds of dwell time and half of the page scrolled.\<close>

definition engagedData :: interactionData where
  "engagedData =
     defaultData\<lparr> clicks := [(''projects'', Num 6), (''contact'', Num 0), (''about'', Num 0),
                             (''themeToggle'', Num 0), (''social'', Num 0), (''cta'', Num 4),
                             (''navigation'', Num 0)],
                  timeOnSections := [(''home'', Num 2000), (''about'', Num 0),
                                     (''projects'', Num 3000), (''contact'', Num 0)],
                  scrollDepth := 50 \<rparr>"

text \<open>A page whose record is \<open>engagedData\<close>.\<close>

definition engagedPage :: page where
  "engagedPage = blankPage\<lparr>data := engagedData\<rparr>"

text \<open>A page whose storage refuses every access.\<close>

definition deniedPage :: page where
  "deniedPage = blankPage\<lparr>storage := Denied\<rparr>"

text \<open>A page whose record says that the last visit was on the day that the clock of
  \<open>testPlatform\<close> shows.\<close>

definition visitedPage :: page where
  "visitedPage = blankPage\<lparr>data := defaultData\<lparr>lastVisit := Some ''Tue Nov 14 2023'',
                                                 visitCount := 1\<rparr>\<rparr>"

text \<open>A browser whose storage holds the text \<open>{}\<close> under the key of the evolution
  history and nothing else, and the page that the constructor of the tracker leaves
  there.\<close>

definition storedObjectPage :: page where
  "storedObjectPage = blankPage\<lparr>localStorage := [''evolutionHistory'' \<mapsto> Json (JObject [])]\<rparr>"

definition firstVisit :: page where
  "firstVisit =
     (case InteractionTracker testPlatform storedObjectPage of
        Some w \<Rightarrow> w
      | None \<Rightarrow> storedObjectPage)"

text \<open>The session on that page: the constructor of the engine and four clicks on a call
  to action; then one evaluation of the rules; then another.\<close>

definition fourClicks :: page where
  "fourClicks =
     run testPlatform (page_of (EvolutionEngine testPlatform firstVisit)) fourCtaClicks"

definition oneEvaluation :: page where
  "oneEvaluation = page_of (checkEvolutionRules testPlatform fourClicks)"

definition twoEvaluations :: page where
  "twoEvaluations = page_of (checkEvolutionRules testPlatform oneEvaluation)"



section \<open>The operations, unfolded\<close>

lemma saveData_eq:
  "saveData w =
     (if storage w = Available
      then w\<lparr>localStorage := (localStorage w)(''portfolioInteractionData'' \<mapsto> Json (toJSON (data w)))\<rparr>
      else w\<lparr>warnings := warnings w @ [''Could not save interaction data:'']\<rparr>)"
  by (cases "storage w") (simp_all add: saveData_def localStorage_setItem_def console_warn_def)

lemma data_saveData: "data (saveData w) = data w"
  by (simp add: saveData_eq)

lemma saveEvolutionHistory_eq:
  "saveEvolutionHistory w =
     (if storage w = Available
      then w\<lparr>localStorage := (localStorage w)(''evolutionHistory'' \<mapsto> Json (evolutionHistory w))\<rparr>
      else w\<lparr>warnings := warnings w @ [''Could not save evolution history:'']\<rparr>)"
  by (cases "storage w") (simp_all add: saveEvolutionHistory_def localStorage_setItem_def console_warn_def)

lemma spread_Nil: "spread base [] = base"
  by (simp add: spread_def)

lemma trackInteraction_eq:
  "trackInteraction P ty dat w =
     w\<lparr>ticks := Suc (ticks w),
        data := (data w)\<lparr>interactions :=
          drop (length (interactions (data w)) + 1 - 1000)
            (interactions (data w) @
              [spread [(''type'', JString ty),
                       (''timestamp'', JNumber (real_of_int (clock P (ticks w))))] dat])\<rparr>\<rparr>"
  by (simp add: trackInteraction_def Date_now_def Let_def slice_last_def)

lemma trackClick_eq:
  "trackClick P ty tg md w =
     saveData
       (trackInteraction P ''click''
          (spread [(''type'', JString ty),
                   (''target'', case tg of None \<Rightarrow> JNull | Some t \<Rightarrow> JString t)] md)
          (w\<lparr>data := (data w)\<lparr>clicks :=
             (let c1 = (if js_get (clicks (data w)) ty \<noteq> Undefined
                        then js_add_assign (clicks (data w)) ty 1 else clicks (data w))
              in case tg of
                   None \<Rightarrow> c1
                 | Some t \<Rightarrow> if t \<noteq> [] \<and> js_get c1 t \<noteq> Undefined
                             then js_add_assign c1 t 1 else c1)\<rparr>\<rparr>))"
  by (simp add: trackClick_def Let_def)

lemma clicks_trackClick:
  "clicks (data (trackClick P ty tg md w)) =
     (let c1 = (if js_get (clicks (data w)) ty \<noteq> Undefined
                then js_add_assign (clicks (data w)) ty 1 else clicks (data w))
      in case tg of
           None \<Rightarrow> c1
         | Some t \<Rightarrow> if t \<noteq> [] \<and> js_get c1 t \<noteq> Undefined
                     then js_add_assign c1 t 1 else c1)"
  by (simp add: trackClick_eq data_saveData trackInteraction_eq)

lemma trackClick_frame:
  "ticks (trackClick P ty tg md w) = Suc (ticks w)"
  "timeOnSections (data (trackClick P ty tg md w)) = timeOnSections (data w)"
  "scrollDepth (data (trackClick P ty tg md w)) = scrollDepth (data w)"
  "themePreference (data (trackClick P ty tg md w)) = themePreference (data w)"
  by (simp_all add: trackClick_eq saveData_eq trackInteraction_eq)

lemma views_trackSectionView:
  "sectionViews (data (trackSectionView P s w)) =
     (if js_get (sectionViews (data w)) s \<noteq> Undefined
      then js_add_assign (sectionViews (data w)) s 1 else sectionViews (data w))"
  by (simp add: trackSectionView_def trackInteraction_eq Let_def)

lemma clicks_trackSectionView:
  "clicks (data (trackSectionView P s w)) = clicks (data w)"
  by (simp add: trackSectionView_def trackInteraction_eq Let_def)

lemma incrementVisitCount_eq:
  "incrementVisitCount P w =
     (if lastVisit (data w) \<noteq> Some (toDateString P (clock P (ticks w)))
      then saveData
             (w\<lparr>ticks := Suc (Suc (ticks w)),
                data := (data w)\<lparr>visitCount := visitCount (data w) + 1,
                  lastVisit := Some (toDateString P (clock P (ticks w))),
                  interactions :=
                    drop (length (interactions (data w)) + 1 - 1000)
                      (interactions (data w) @
                         [[(''type'', JString ''visit''),
                           (''timestamp'', JNumber (real_of_int (clock P (Suc (ticks w)))))]])\<rparr>\<rparr>)
      else w\<lparr>ticks := Suc (ticks w)\<rparr>)"
  by (simp add: incrementVisitCount_def Date_now_def Let_def trackInteraction_eq spread_Nil)

lemma loadData_eq:
  "loadData w =
     (if storage w = Denied then (JNull, console_warn ''Could not load interaction data:'' w)
      else case localStorage w ''portfolioInteractionData'' of
             None \<Rightarrow> (JNull, w)
           | Some (Json j) \<Rightarrow> (j, w)
           | Some (NotJson t) \<Rightarrow>
               if t = [] then (JNull, w)
               else (JNull, console_warn ''Could not load interaction data:'' w))"
  by (cases "storage w")
     (simp_all add: loadData_def localStorage_getItem_def JSON_parse_def
        split: option.splits stored.splits)

lemma loadData_frame:
  "data (snd (loadData w)) = data w" "ticks (snd (loadData w)) = ticks w"
  "storage (snd (loadData w)) = storage w" "localStorage (snd (loadData w)) = localStorage w"
  by (simp_all add: loadData_eq console_warn_def split: option.splits stored.splits)

lemma tracker_fields_data:
  "map_option data (tracker_fields P w) =
     (if falsy (fst (loadData w)) then Some defaultData else fromJSON (fst (loadData w)))"
  by (simp add: tracker_fields_def split_beta Date_now_def Let_def option.map_comp comp_def
        option.map_ident)

lemma tracker_fields_default:
  "falsy (fst (loadData w)) \<Longrightarrow>
     tracker_fields P w =
       Some ((snd (loadData w))\<lparr>currentSection := ''home'', ticks := Suc (ticks w),
               sectionStartTime := clock P (ticks w), maxScrollDepth := 0,
               data := defaultData\<rparr>)"
  by (simp add: tracker_fields_def split_beta Date_now_def Let_def loadData_frame)

lemma loadEvolutionHistory_eq:
  "loadEvolutionHistory w =
     (if storage w = Denied then (JArray [], console_warn ''Could not load evolution history:'' w)
      else case localStorage w ''evolutionHistory'' of
             None \<Rightarrow> (JArray [], w)
           | Some (Json j) \<Rightarrow> (j, w)
           | Some (NotJson t) \<Rightarrow>
               if t = [] then (JArray [], w)
               else (JArray [], console_warn ''Could not load evolution history:'' w))"
  by (cases "storage w")
     (simp_all add: loadEvolutionHistory_def localStorage_getItem_def JSON_parse_def
        split: option.splits stored.splits)


lemma logEvolution_throws:
  "\<not> is_array (evolutionHistory w) \<Longrightarrow>
     logEvolution P descr w = Threw TypeError (w\<lparr>ticks := Suc (ticks w)\<rparr>)"
  by (cases "evolutionHistory w")
     (simp_all add: logEvolution_def Date_now_def getData_def Let_def is_array_def)

lemma shouldApplyRule_eq:
  "shouldApplyRule P r d w =
     (condition r d
      \<and> clock P (ticks w) - (case lastAppliedTimes w (name r) of Some t \<Rightarrow> t | None \<Rightarrow> 0) > cooldown r
      \<and> name r \<notin> currentEvolutions w,
      w\<lparr>ticks := Suc (ticks w)\<rparr>)"
  by (simp add: shouldApplyRule_def Date_now_def Let_def)

lemma snd_shouldApplyRule: "snd (shouldApplyRule P r d w) = w\<lparr>ticks := Suc (ticks w)\<rparr>"
  by (simp add: shouldApplyRule_eq)

lemma applyIfDue_eq:
  "applyIfDue P w r =
     (if fst (shouldApplyRule P r (data w) w)
      then (case action r P (w\<lparr>ticks := Suc (ticks w),
                               actionTrace := actionTrace w @ [(name r, clock P (ticks w))]\<rparr>) of
              Threw e w2 \<Rightarrow> Threw e w2
            | Returned w2 \<Rightarrow>
                Returned (w2\<lparr>currentEvolutions := insert (name r) (currentEvolutions w2),
                            ticks := Suc (ticks w2),
                            lastAppliedTimes := (lastAppliedTimes w2)(name r \<mapsto> clock P (ticks w2))\<rparr>))
      else Returned (w\<lparr>ticks := Suc (ticks w)\<rparr>))"
  by (simp add: applyIfDue_def split_beta snd_shouldApplyRule Date_now_def Let_def getData_def
        split: completion.splits)

text \<open>The page that the body of the loop leaves, whether the action returned or threw.\<close>

lemma applyIfDue_page:
  "page_of (applyIfDue P w r) =
     (if fst (shouldApplyRule P r (data w) w)
      then (let c = action r P (w\<lparr>ticks := Suc (ticks w),
                                  actionTrace := actionTrace w @ [(name r, clock P (ticks w))]\<rparr>);
                w2 = page_of c
            in if returned c
               then w2\<lparr>currentEvolutions := insert (name r) (currentEvolutions w2),
                       ticks := Suc (ticks w2),
                       lastAppliedTimes := (lastAppliedTimes w2)(name r \<mapsto> clock P (ticks w2))\<rparr>
               else w2)
      else w\<lparr>ticks := Suc (ticks w)\<rparr>)"
  by (simp add: applyIfDue_eq Let_def split: completion.splits)

lemma applyIfDue_condition_false:
  "\<not> condition r (data w) \<Longrightarrow> applyIfDue P w r = Returned (w\<lparr>ticks := Suc (ticks w)\<rparr>)"
  by (simp add: applyIfDue_eq shouldApplyRule_eq)

lemma forEach_returned:
  "returned (f w x) \<Longrightarrow> forEach f w (x # xs) = forEach f (page_of (f w x)) xs"
  by (cases "f w x") simp_all

lemma forEach_rel:
  assumes step: "\<And>w x. x \<in> set xs \<Longrightarrow> R w (page_of (f w x))"
    and refl: "\<And>w. R w w"
    and trans: "\<And>a b c. R a b \<Longrightarrow> R b c \<Longrightarrow> R a c"
  shows "R w (page_of (forEach f w xs))"
  using step
proof (induction xs arbitrary: w)
  case Nil
  show ?case by (simp add: refl)
next
  case (Cons x xs)
  have first: "R w (page_of (f w x))" by (rule Cons.prems) simp
  show ?case
  proof (cases "f w x")
    case (Returned w')
    have "R w' (page_of (forEach f w' xs))"
      by (rule Cons.IH) (simp add: Cons.prems)
    with first Returned show ?thesis by (auto intro: trans)
  next
    case (Threw e w')
    with first show ?thesis by simp
  qed
qed

lemma forEach_inv:
  assumes step: "\<And>w x. x \<in> set xs \<Longrightarrow> I w \<Longrightarrow> I (page_of (f w x))"
    and start: "I w"
  shows "I (page_of (forEach f w xs))"
  using step start
proof (induction xs arbitrary: w)
  case Nil
  then show ?case by simp
next
  case (Cons x xs)
  have first: "I (page_of (f w x))" by (rule Cons.prems(1)) (simp_all add: Cons.prems(2))
  show ?case
  proof (cases "f w x")
    case (Returned w')
    have "I (page_of (forEach f w' xs))"
      by (rule Cons.IH) (use first Returned Cons.prems(1) in simp_all)
    with Returned show ?thesis by simp
  next
    case (Threw e w')
    with first show ?thesis by simp
  qed
qed

lemma rule_table:
  "name projectsRule = ''projects_priority''"
  "name ctaRule = ''cta_optimization''"
  "action ctaRule = optimizeCTA"
  "cooldown ctaRule = 45000"
  "projectsRule \<in> set setupEvolutionRules"
  "ctaRule \<in> set setupEvolutionRules"
  "set laterRules \<subseteq> set setupEvolutionRules"
  by (simp_all add: setupEvolutionRules_def projectsRule_def ctaRule_def laterRules_def)

lemma rule_list: "setupEvolutionRules = projectsRule # ctaRule # laterRules"
  by (simp add: setupEvolutionRules_def projectsRule_def ctaRule_def laterRules_def)

lemma fourCtaClicks_eq:
  "run P w fourCtaClicks =
     trackClick P ''cta'' None [] (trackClick P ''cta'' None []
       (trackClick P ''cta'' None [] (trackClick P ''cta'' None [] w)))"
  by (simp add: run_def fourCtaClicks_def)

section \<open>What the tracker and the actions leave alone\<close>

lemmas tracker_defs = trackClick_def trackInteraction_def trackSectionView_def trackThemePreference_def
  updateSectionTime_def incrementVisitCount_def resetData_def onScroll_def onScrollSettled_def
  onSectionVisible_def onBeforeUnload_def onDocumentClick_def saveData_eq Date_now_def Let_def

lemma frame_trackClick: "engine_frame w (trackClick P ty tg md w)"
  by (simp add: engine_frame_def tracker_defs)
lemma frame_trackInteraction: "engine_frame w (trackInteraction P ty d w)"
  by (simp add: engine_frame_def tracker_defs)
lemma frame_trackSectionView: "engine_frame w (trackSectionView P s w)"
  by (simp add: engine_frame_def tracker_defs)
lemma frame_trackThemePreference: "engine_frame w (trackThemePreference P s w)"
  by (simp add: engine_frame_def tracker_defs)
lemma frame_updateSectionTime: "engine_frame w (updateSectionTime P w)"
  by (simp add: engine_frame_def tracker_defs)
lemma frame_incrementVisitCount: "engine_frame w (incrementVisitCount P w)"
  by (simp add: engine_frame_def tracker_defs)
lemma frame_saveData: "engine_frame w (saveData w)"
  by (simp add: engine_frame_def tracker_defs)
lemma frame_resetData: "engine_frame w (resetData P w)"
  by (simp add: engine_frame_def tracker_defs)
lemma frame_onScroll: "engine_frame w (onScroll r w)"
  by (simp add: engine_frame_def tracker_defs)
lemma frame_onScrollSettled: "engine_frame w (onScrollSettled P w)"
  by (simp add: engine_frame_def tracker_defs)
lemma frame_onSectionVisible: "engine_frame w (onSectionVisible P s w)"
  by (simp add: engine_frame_def tracker_defs)
lemma frame_onBeforeUnload: "engine_frame w (onBeforeUnload P w)"
  by (simp add: engine_frame_def tracker_defs)
lemma frame_onDocumentClick: "engine_frame w (onDocumentClick P s w)"
  by (simp add: engine_frame_def tracker_defs)

lemmas frames = frame_trackClick frame_trackInteraction frame_trackSectionView
  frame_trackThemePreference frame_updateSectionTime frame_incrementVisitCount frame_saveData
  frame_resetData frame_onScroll frame_onScrollSettled frame_onSectionVisible frame_onBeforeUnload
  frame_onDocumentClick

lemma engine_frame_trans: "engine_frame w w1 \<Longrightarrow> engine_frame w1 w2 \<Longrightarrow> engine_frame w w2"
  by (simp add: engine_frame_def)

lemma rules_frame_refl: "rules_frame w w"
  by (simp add: rules_frame_def)

lemma rules_frame_trans: "rules_frame w w1 \<Longrightarrow> rules_frame w1 w2 \<Longrightarrow> rules_frame w w2"
  by (simp add: rules_frame_def)

text \<open>What \<open>logEvolution\<close> leaves alone, whether it returns or throws.\<close>

lemma logEvolution_frame:
  "rules_frame w (page_of (logEvolution P descr w))"
  "labels_frame w (page_of (logEvolution P descr w))"
  "data (page_of (logEvolution P descr w)) = data w"
  "returned (logEvolution P descr w) = is_array (evolutionHistory w)"
  "is_array (evolutionHistory (page_of (logEvolution P descr w))) = is_array (evolutionHistory w)"
  by (cases "evolutionHistory w";
      simp add: logEvolution_def Date_now_def getData_def Let_def saveEvolutionHistory_eq
        rules_frame_def labels_frame_def is_array_def)+

lemma rules_frame_moveProjectsUp: "rules_frame w (page_of (moveProjectsUp P w))"
  by (simp add: moveProjectsUp_def logEvolution_frame rules_frame_refl)

lemma rules_frame_optimizeCTA: "rules_frame w (page_of (optimizeCTA P w))"
proof -
  obtain w1 where e: "optimizeCTA P w = logEvolution P ''CTA buttons optimized based on engagement!'' w1"
    and f: "rules_frame w w1"
    by (simp add: optimizeCTA_def split_beta Let_def rules_frame_def)
  from logEvolution_frame(1) [of w1 P] f show ?thesis
    unfolding e by (rule rules_frame_trans [rotated])
qed

lemma rules_frame_setDarkThemeDefault: "rules_frame w (page_of (setDarkThemeDefault P w))"
proof (cases "darkThemeClass w")
  case True
  then show ?thesis by (simp add: setDarkThemeDefault_def rules_frame_refl)
next
  case False
  have "rules_frame w (trackThemePreference P ''dark'' (w\<lparr>darkThemeClass := True\<rparr>))"
    using frame_trackThemePreference [of "w\<lparr>darkThemeClass := True\<rparr>" P "''dark''"]
    by (simp add: rules_frame_def engine_frame_def)
  then show ?thesis
    using False by (auto simp add: setDarkThemeDefault_def intro: rules_frame_trans logEvolution_frame(1))
qed

lemma rules_frame_highlightPopularProject: "rules_frame w (page_of (highlightPopularProject P w))"
  by (simp add: highlightPopularProject_def logEvolution_frame)

lemma rules_frame_revealAdditionalContent: "rules_frame w (page_of (revealAdditionalContent P w))"
  by (simp add: revealAdditionalContent_def logEvolution_frame)

lemma rules_frame_action:
  "r \<in> set setupEvolutionRules \<Longrightarrow> rules_frame w (page_of (action r P w))"
  by (auto simp add: setupEvolutionRules_def rules_frame_moveProjectsUp rules_frame_optimizeCTA
        rules_frame_setDarkThemeDefault rules_frame_highlightPopularProject
        rules_frame_revealAdditionalContent)

text \<open>With a history that is an array every action returns, and leaves an array.\<close>

lemma array_action:
  assumes "r \<in> set setupEvolutionRules" "is_array (evolutionHistory w)"
  shows "returned (action r P w) \<and> is_array (evolutionHistory (page_of (action r P w)))"
proof -
  have dark: "is_array (evolutionHistory
      (trackThemePreference P ''dark'' (w\<lparr>darkThemeClass := True\<rparr>)))"
    using frame_trackThemePreference [of "w\<lparr>darkThemeClass := True\<rparr>" P "''dark''"] assms(2)
    by (simp add: engine_frame_def)
  from assms dark show ?thesis
    by (auto simp add: setupEvolutionRules_def moveProjectsUp_def optimizeCTA_def
          setDarkThemeDefault_def highlightPopularProject_def revealAdditionalContent_def
          logEvolution_frame split_beta Let_def)
qed

lemma array_applyIfDue:
  assumes "r \<in> set setupEvolutionRules" "is_array (evolutionHistory w)"
  shows "returned (applyIfDue P w r) \<and> is_array (evolutionHistory (page_of (applyIfDue P w r)))"
proof -
  let ?w1 = "w\<lparr>ticks := Suc (ticks w),
               actionTrace := actionTrace w @ [(name r, clock P (ticks w))]\<rparr>"
  have "is_array (evolutionHistory ?w1)" using assms(2) by simp
  from array_action [OF assms(1) this, of P] assms(2) show ?thesis
    by (cases "action r P ?w1") (simp_all add: applyIfDue_eq)
qed

lemma array_forEach:
  "set rs \<subseteq> set setupEvolutionRules \<Longrightarrow> is_array (evolutionHistory w) \<Longrightarrow>
     returned (forEach (applyIfDue P) w rs)
     \<and> is_array (evolutionHistory (page_of (forEach (applyIfDue P) w rs)))"
proof (induction rs arbitrary: w)
  case Nil
  then show ?case by simp
next
  case (Cons r rs)
  then have r: "r \<in> set setupEvolutionRules" and rs: "set rs \<subseteq> set setupEvolutionRules" by auto
  from array_applyIfDue [OF r Cons.prems(2), of P]
  have a: "returned (applyIfDue P w r)"
    and b: "is_array (evolutionHistory (page_of (applyIfDue P w r)))" by simp_all
  from Cons.IH [OF rs b] show ?case
    by (simp only: forEach_returned [of "applyIfDue P" w r, OF a])
qed

lemma array_checkEvolutionRules:
  "is_array (evolutionHistory w) \<Longrightarrow>
     returned (checkEvolutionRules P w)
     \<and> is_array (evolutionHistory (page_of (checkEvolutionRules P w)))"
  by (simp add: checkEvolutionRules_def array_forEach)

lemma applyIfDue_other:
  assumes "r \<in> set setupEvolutionRules" "n \<noteq> name r"
  shows "(n \<in> currentEvolutions (page_of (applyIfDue P w r))) = (n \<in> currentEvolutions w)"
    and "lastAppliedTimes (page_of (applyIfDue P w r)) n = lastAppliedTimes w n"
    and "calls n (page_of (applyIfDue P w r)) = calls n w"
proof -
  let ?w1 = "w\<lparr>ticks := Suc (ticks w),
               actionTrace := actionTrace w @ [(name r, clock P (ticks w))]\<rparr>"
  have fr: "rules_frame ?w1 (page_of (action r P ?w1))" using assms(1) by (rule rules_frame_action)
  show "(n \<in> currentEvolutions (page_of (applyIfDue P w r))) = (n \<in> currentEvolutions w)"
    using fr assms(2) by (simp add: applyIfDue_page Let_def rules_frame_def)
  show "lastAppliedTimes (page_of (applyIfDue P w r)) n = lastAppliedTimes w n"
    using fr assms(2) by (simp add: applyIfDue_page Let_def rules_frame_def)
  show "calls n (page_of (applyIfDue P w r)) = calls n w"
    using fr assms(2) by (simp add: applyIfDue_page Let_def rules_frame_def calls_def)
qed

section \<open>The engagement score\<close>

lemma foldl_js_plus_Num: "foldl js_plus (Num a) (map Num cs) = Num (a + sum_list cs)"
  by (induction cs arbitrary: a) (simp_all add: add.assoc)

lemma sum_values_Num: "map snd obj = map Num cs \<Longrightarrow> sum_values obj = Num (sum_list cs)"
  using foldl_js_plus_Num [of 0 cs] by (simp add: sum_values_def)

text \<open>
  C1 (as amended). \<open>getEngagementScore\<close> returns 0.3 times the total of the click counters
  plus 0.4 times the total dwell time in seconds (the milliseconds of all sections, divided
  by 1000) plus 0.3 times the scroll depth. For the default record it returns 0. For ten
  clicks, five seconds of dwell time and a scroll depth of 50 it returns 20, that is
  \<open>3 + 2 + 15\<close>.
\<close>

theorem engagement_score_weighted_sum:
  "(map snd (clicks d) = map Num cs \<longrightarrow> map snd (timeOnSections d) = map Num ts \<longrightarrow>
      getEngagementScore d =
        Num (3 / 10 * real_of_int (sum_list cs) + 4 / 10 * (real_of_int (sum_list ts) / 1000)
             + 3 / 10 * real_of_int (scrollDepth d)))
   \<and> getEngagementScore defaultData = Num 0
   \<and> (sum_values (clicks d) = Num 10 \<longrightarrow> sum_values (timeOnSections d) = Num 5000 \<longrightarrow>
        scrollDepth d = 50 \<longrightarrow> getEngagementScore d = Num 20)"
proof -
  have a: "getEngagementScore d =
        Num (3 / 10 * real_of_int (sum_list cs) + 4 / 10 * (real_of_int (sum_list ts) / 1000)
             + 3 / 10 * real_of_int (scrollDepth d))"
    if "map snd (clicks d) = map Num cs" "map snd (timeOnSections d) = map Num ts"
    using that by (simp add: getEngagementScore_def sum_values_Num)
  have b: "getEngagementScore defaultData = Num 0"
    by (simp add: getEngagementScore_def sum_values_def defaultData_def)
  have c: "getEngagementScore d = Num 20"
    if "sum_values (clicks d) = Num 10" "sum_values (timeOnSections d) = Num 5000" "scrollDepth d = 50"
    using that by (simp add: getEngagementScore_def)
  from a b c show ?thesis by blast
qed

text \<open>The three statements of C1 at the record \<open>engagedData\<close>.\<close>

theorem engagement_score_weighted_sum_witness:
  "map snd (clicks engagedData) = map Num [6, 0, 0, 0, 0, 4, 0]
   \<and> map snd (timeOnSections engagedData) = map Num [2000, 0, 3000, 0]
   \<and> sum_values (clicks engagedData) = Num 10
   \<and> sum_values (timeOnSections engagedData) = Num 5000
   \<and> scrollDepth engagedData = 50
   \<and> getEngagementScore engagedData = Num (3 / 10 * 10 + 4 / 10 * (5000 / 1000) + 3 / 10 * 50)
   \<and> getEngagementScore engagedData = Num 20"
  using engagement_score_weighted_sum [of engagedData "[6, 0, 0, 0, 0, 4, 0]" "[2000, 0, 3000, 0]"]
  by (simp add: engagedData_def sum_values_def)

text \<open>C1 as stated gives 5.0 for this record; the value is 20.\<close>

theorem engagement_score_example_not_5:
  "sum_values (clicks engagedData) = Num 10
   \<and> sum_values (timeOnSections engagedData) = Num 5000
   \<and> scrollDepth engagedData = 50
   \<and> getEngagementScore engagedData = Num 20
   \<and> getEngagementScore engagedData \<noteq> Num 5"
  by (simp add: engagedData_def sum_values_def getEngagementScore_def)

section \<open>The two capped logs\<close>



section \<open>A rule whose action returned is not applied again\<close>

lemma applyIfDue_inv:
  assumes "r \<in> set setupEvolutionRules" "fired_inv w"
  shows "fired_inv (page_of (applyIfDue P w r))"
proof -
  let ?w1 = "w\<lparr>ticks := Suc (ticks w), actionTrace := actionTrace w @ [(name r, clock P (ticks w))]\<rparr>"
  have arr: "is_array (evolutionHistory ?w1)" using assms(2) by (simp add: fired_inv_def)
  have fr: "rules_frame ?w1 (page_of (action r P ?w1))" using assms(1) by (rule rules_frame_action)
  note a = array_action [OF assms(1) arr, of P]
  show ?thesis
    using assms(2) fr a
    by (auto simp add: applyIfDue_page shouldApplyRule_eq Let_def fired_inv_def rules_frame_def)
qed

lemma checkEvolutionRules_inv: "fired_inv w \<Longrightarrow> fired_inv (page_of (checkEvolutionRules P w))"
  unfolding checkEvolutionRules_def
  by (rule forEach_inv [where I = fired_inv]) (simp_all add: applyIfDue_inv)

lemma engine_frame_inv: "engine_frame w w' \<Longrightarrow> fired_inv w' = fired_inv w"
  by (simp add: engine_frame_def fired_inv_def)

lemma step_inv: "fired_inv w \<Longrightarrow> fired_inv (step P w e)"
  by (cases e) (simp_all add: frames [THEN engine_frame_inv] checkEvolutionRules_inv,
                simp_all add: fired_inv_def)

lemma run_inv: "fired_inv w \<Longrightarrow> fired_inv (run P w es)"
  unfolding run_def by (induction es arbitrary: w) (simp_all add: step_inv)

lemma EvolutionEngine_inv:
  assumes "is_array (fst (loadEvolutionHistory w))"
  shows "fired_inv (page_of (EvolutionEngine P w))"
proof -
  obtain h w1 where l: "loadEvolutionHistory w = (h, w1)" by (cases "loadEvolutionHistory w")
  have "fired_inv (w1\<lparr>evolutionHistory := h, lastAppliedTimes := Map.empty,
               currentEvolutions := {}, actionTrace := []\<rparr>)"
    using assms l by (simp add: fired_inv_def)
  then show ?thesis
    by (simp add: EvolutionEngine_def l checkEvolutionRules_inv)
qed

lemma distinct_filter_le1:
  "distinct (map f xs) \<Longrightarrow> length (filter (\<lambda>e. f e = n) xs) \<le> 1"
proof (induction xs)
  case Nil
  then show ?case by simp
next
  case (Cons x xs)
  show ?case
  proof (cases "f x = n")
    case True
    from Cons.prems have "f x \<notin> f ` set xs" by simp
    with True have "filter (\<lambda>e. f e = n) xs = []"
      by (auto simp add: filter_empty_conv image_iff)
    with True show ?thesis by simp
  next
    case False
    with Cons show ?thesis by simp
  qed
qed

text \<open>In a session whose stored history is an array (or absent, or unreadable), the action
  of each rule is called at most once, and every rule whose action was called is active.\<close>

lemma array_history_fires_once:
  assumes "is_array (fst (loadEvolutionHistory w))"
  shows "length (calls n (run P (page_of (EvolutionEngine P w)) es)) \<le> 1"
    and "fst ` set (actionTrace (run P (page_of (EvolutionEngine P w)) es))
           \<subseteq> currentEvolutions (run P (page_of (EvolutionEngine P w)) es)"
proof -
  have inv: "fired_inv (run P (page_of (EvolutionEngine P w)) es)"
    using assms by (simp add: run_inv EvolutionEngine_inv)
  show "length (calls n (run P (page_of (EvolutionEngine P w)) es)) \<le> 1"
    using inv distinct_filter_le1 [of fst "actionTrace (run P (page_of (EvolutionEngine P w)) es)" n]
    by (simp add: fired_inv_def calls_def)
  show "fst ` set (actionTrace (run P (page_of (EvolutionEngine P w)) es))
           \<subseteq> currentEvolutions (run P (page_of (EvolutionEngine P w)) es)"
    using inv by (simp add: fired_inv_def)
qed

text \<open>A rule that is active stays active, and its action is not called.\<close>

lemma applyIfDue_active:
  assumes "r \<in> set setupEvolutionRules" "n \<in> currentEvolutions w"
  shows "n \<in> currentEvolutions (page_of (applyIfDue P w r))
     \<and> calls n (page_of (applyIfDue P w r)) = calls n w"
proof -
  let ?w1 = "w\<lparr>ticks := Suc (ticks w), actionTrace := actionTrace w @ [(name r, clock P (ticks w))]\<rparr>"
  have fr: "rules_frame ?w1 (page_of (action r P ?w1))" using assms(1) by (rule rules_frame_action)
  show ?thesis
    using assms(2) fr
    by (auto simp add: applyIfDue_page shouldApplyRule_eq Let_def calls_def rules_frame_def)
qed

lemma forEach_applyIfDue_active:
  assumes "set rs \<subseteq> set setupEvolutionRules" "n \<in> currentEvolutions w"
  shows "n \<in> currentEvolutions (page_of (forEach (applyIfDue P) w rs))
     \<and> calls n (page_of (forEach (applyIfDue P) w rs)) = calls n w"
proof -
  have "n \<in> currentEvolutions w \<longrightarrow>
      n \<in> currentEvolutions (page_of (forEach (applyIfDue P) w rs))
      \<and> calls n (page_of (forEach (applyIfDue P) w rs)) = calls n w"
    by (rule forEach_rel [where R = "\<lambda>a b. n \<in> currentEvolutions a \<longrightarrow>
          n \<in> currentEvolutions b \<and> calls n b = calls n a"])
       (use assms(1) applyIfDue_active in auto)
  with assms(2) show ?thesis by simp
qed

lemma engine_frame_active:
  "engine_frame w w' \<Longrightarrow> (n \<in> currentEvolutions w') = (n \<in> currentEvolutions w) \<and> calls n w' = calls n w"
  by (simp add: engine_frame_def calls_def)

lemma step_active:
  "n \<in> currentEvolutions w \<Longrightarrow> n \<in> currentEvolutions (step P w e) \<and> calls n (step P w e) = calls n w"
  by (cases e) (simp_all add: frames [THEN engine_frame_active] checkEvolutionRules_def
                  forEach_applyIfDue_active,
                simp_all add: calls_def)

lemma run_active:
  "n \<in> currentEvolutions w \<Longrightarrow> n \<in> currentEvolutions (run P w es) \<and> calls n (run P w es) = calls n w"
  unfolding run_def
proof (induction es arbitrary: w)
  case Nil
  then show ?case by simp
next
  case (Cons e es)
  from step_active [OF Cons.prems, of P e] Cons.IH [of "step P w e"] show ?case by simp
qed

section \<open>Counting clicks\<close>

lemma proto_inherited: "''__proto__'' \<in> set Object_prototype_names"
  by (simp add: Object_prototype_names_def)

lemma map_of_js_add_assign:
  "map_of (js_add_assign obj k d) k' =
     (case map_of obj k of
        Some (Num n) \<Rightarrow> if k' = k then Some (Num (n + d)) else map_of obj k'
      | Some Null \<Rightarrow> if k' = k then Some (Num d) else map_of obj k'
      | Some NaN \<Rightarrow> map_of obj k'
      | None \<Rightarrow> if k = ''__proto__'' then map_of obj k'
                else if k' = k then Some NaN else map_of obj k')"
proof (cases "map_of obj k")
  case None
  show ?thesis
  proof (cases "k = ''__proto__''")
    case True
    with None proto_inherited show ?thesis
      by (simp add: js_add_assign_def js_get_def)
  next
    case False
    with None show ?thesis
      by (simp add: js_add_assign_def js_get_def update_conv')
  qed
next
  case (Some v)
  then show ?thesis
    by (cases v) (simp_all add: js_add_assign_def js_get_def update_conv')
qed

lemma counted_own_name:
  assumes "x \<notin> set Object_prototype_names"
  shows "map_of c k = Some (Num n) \<Longrightarrow>
           map_of (if js_get c x \<noteq> Undefined then js_add_assign c x 1 else c) k
             = Some (Num (n + (if k = x then 1 else 0)))"
    and "map_of c k = None \<Longrightarrow>
           map_of (if js_get c x \<noteq> Undefined then js_add_assign c x 1 else c) k = None"
proof -
  show "map_of (if js_get c x \<noteq> Undefined then js_add_assign c x 1 else c) k
             = Some (Num (n + (if k = x then 1 else 0)))"
    if k: "map_of c k = Some (Num n)"
  proof (cases "map_of c x")
    case None
    with assms have "js_get c x = Undefined" by (simp add: js_get_def)
    with None k show ?thesis by auto
  next
    case (Some v)
    then have known: "js_get c x \<noteq> Undefined" by (simp add: js_get_def)
    show ?thesis
    proof (cases "k = x")
      case True
      with Some known k show ?thesis by (simp add: map_of_js_add_assign)
    next
      case False
      with Some known k show ?thesis
        by (cases v) (simp_all add: map_of_js_add_assign)
    qed
  qed
  show "map_of (if js_get c x \<noteq> Undefined then js_add_assign c x 1 else c) k = None"
    if k: "map_of c k = None"
  proof (cases "map_of c x")
    case None
    with assms have "js_get c x = Undefined" by (simp add: js_get_def)
    with k show ?thesis by simp
  next
    case (Some v)
    then have known: "js_get c x \<noteq> Undefined" by (simp add: js_get_def)
    from Some k have "k \<noteq> x" by auto
    with Some known k show ?thesis
      by (cases v) (simp_all add: map_of_js_add_assign)
  qed
qed

text \<open>
  When neither the category nor the target is the name of a member inherited from
  \<open>Object.prototype\<close>, \<open>trackClick\<close> adds one to the counter of the category if the category
  is a key of \<open>clicks\<close>, one more to the counter of the target if the target is given, not
  empty and a key of \<open>clicks\<close>, and adds no key.
\<close>

lemma trackClick_own_names:
  assumes "ty \<notin> set Object_prototype_names"
    and "\<forall>t. tg = Some t \<longrightarrow> t \<notin> set Object_prototype_names"
  shows "map_of (clicks (data w)) k = Some (Num n) \<Longrightarrow>
           map_of (clicks (data (trackClick P ty tg md w))) k
             = Some (Num (n + (if k = ty then 1 else 0)
                            + (if tg = Some k \<and> k \<noteq> [] then 1 else 0)))"
    and "map_of (clicks (data w)) k = None \<Longrightarrow>
           map_of (clicks (data (trackClick P ty tg md w))) k = None"
proof -
  let ?c0 = "clicks (data w)"
  let ?c1 = "if js_get ?c0 ty \<noteq> Undefined then js_add_assign ?c0 ty 1 else ?c0"
  show "map_of (clicks (data (trackClick P ty tg md w))) k
             = Some (Num (n + (if k = ty then 1 else 0)
                            + (if tg = Some k \<and> k \<noteq> [] then 1 else 0)))"
    if k: "map_of ?c0 k = Some (Num n)"
  proof -
    note c1 = counted_own_name(1) [OF assms(1) k]
    show ?thesis
    proof (cases tg)
      case None
      with c1 show ?thesis by (simp add: clicks_trackClick Let_def)
    next
      case (Some t)
      with assms(2) have t: "t \<notin> set Object_prototype_names" by simp
      note c2 = counted_own_name(1) [OF t c1]
      show ?thesis
      proof (cases "t = []")
        case True
        with Some c1 show ?thesis by (simp add: clicks_trackClick Let_def)
      next
        case False
        have "map_of (clicks (data (trackClick P ty tg md w))) k
                = map_of (if js_get ?c1 t \<noteq> Undefined then js_add_assign ?c1 t 1 else ?c1) k"
          using False by (simp add: clicks_trackClick Let_def Some)
        with c2 Some False show ?thesis by auto
      qed
    qed
  qed
  show "map_of (clicks (data (trackClick P ty tg md w))) k = None"
    if k: "map_of ?c0 k = None"
  proof -
    note c1 = counted_own_name(2) [OF assms(1) k]
    show ?thesis
    proof (cases tg)
      case None
      with c1 show ?thesis by (simp add: clicks_trackClick Let_def)
    next
      case (Some t)
      with assms(2) have t: "t \<notin> set Object_prototype_names" by simp
      note c2 = counted_own_name(2) [OF t c1]
      show ?thesis
      proof (cases "t = []")
        case True
        with Some c1 show ?thesis by (simp add: clicks_trackClick Let_def)
      next
        case False
        have "map_of (clicks (data (trackClick P ty tg md w))) k
                = map_of (if js_get ?c1 t \<noteq> Undefined then js_add_assign ?c1 t 1 else ?c1) k"
          using False by (simp add: clicks_trackClick Let_def Some)
        with c2 show ?thesis by simp
      qed
    qed
  qed
qed

text \<open>
  C7 fails at the category \<open>toString\<close>, which is not a key of the \<open>clicks\<close> record: the test
  \<open>clicks[type] !== undefined\<close> finds the method that every object inherits, and \<open>++\<close> stores
  \<open>NaN\<close> under a new key, after which the engagement score is not a number. One entry is
  added to the log, as for every click.
\<close>

theorem trackClick_inherited_name:
  "map_of (clicks (data blankPage)) ''toString'' = None
   \<and> js_get (clicks (data blankPage)) ''toString'' = Inherited
   \<and> clicks (data (trackClick testPlatform ''toString'' None [] blankPage))
       = clicks (data blankPage) @ [(''toString'', NaN)]
   \<and> getEngagementScore (data (trackClick testPlatform ''toString'' None [] blankPage)) = NaN
   \<and> length (interactions (data (trackClick testPlatform ''toString'' None [] blankPage))) = 1"
  by (simp add: clicks_trackClick trackClick_eq data_saveData trackInteraction_eq
        blankPage_def defaultData_def js_get_def js_add_assign_def Object_prototype_names_def
        getEngagementScore_def sum_values_def)

section \<open>Counters do not decrease\<close>

lemma counters_le_refl: "counters_le c c"
  by (simp add: counters_le_def)

lemma counters_le_trans: "counters_le c c1 \<Longrightarrow> counters_le c1 c2 \<Longrightarrow> counters_le c c2"
  unfolding counters_le_def by (meson order_trans)

lemma counters_le_add_assign: "0 \<le> d \<Longrightarrow> counters_le c (js_add_assign c k d)"
  by (auto simp add: counters_le_def map_of_js_add_assign split: option.splits number.splits)

lemma counters_le_trackClick:
  "counters_le (clicks (data w)) (clicks (data (trackClick P ty tg md w)))"
proof -
  let ?c0 = "clicks (data w)"
  let ?c1 = "if js_get ?c0 ty \<noteq> Undefined then js_add_assign ?c0 ty 1 else ?c0"
  have a: "counters_le ?c0 ?c1" by (simp add: counters_le_refl counters_le_add_assign)
  have b: "counters_le ?c1 (case tg of None \<Rightarrow> ?c1
         | Some t \<Rightarrow> if t \<noteq> [] \<and> js_get ?c1 t \<noteq> Undefined then js_add_assign ?c1 t 1 else ?c1)"
    by (cases tg) (simp_all add: counters_le_refl counters_le_add_assign)
  from counters_le_trans [OF a b] show ?thesis by (simp add: clicks_trackClick Let_def)
qed

lemma counters_le_trackSectionView:
  "counters_le (sectionViews (data w)) (sectionViews (data (trackSectionView P s w)))"
  by (simp add: views_trackSectionView counters_le_refl counters_le_add_assign)

text \<open>The operations that leave both objects of counters alone.\<close>

lemma counters_kept:
  "clicks (data (trackInteraction P ty d w)) = clicks (data w)"
  "sectionViews (data (trackInteraction P ty d w)) = sectionViews (data w)"
  "clicks (data (trackThemePreference P pr w)) = clicks (data w)"
  "sectionViews (data (trackThemePreference P pr w)) = sectionViews (data w)"
  "clicks (data (updateSectionTime P w)) = clicks (data w)"
  "sectionViews (data (updateSectionTime P w)) = sectionViews (data w)"
  "clicks (data (incrementVisitCount P w)) = clicks (data w)"
  "sectionViews (data (incrementVisitCount P w)) = sectionViews (data w)"
  "clicks (data (saveData w)) = clicks (data w)"
  "sectionViews (data (saveData w)) = sectionViews (data w)"
  "clicks (data (onScroll r w)) = clicks (data w)"
  "sectionViews (data (onScroll r w)) = sectionViews (data w)"
  "clicks (data (onScrollSettled P w)) = clicks (data w)"
  "sectionViews (data (onScrollSettled P w)) = sectionViews (data w)"
  "clicks (data (onBeforeUnload P w)) = clicks (data w)"
  "sectionViews (data (onBeforeUnload P w)) = sectionViews (data w)"
  "clicks (data (onDocumentClick P el w)) = clicks (data w)"
  "sectionViews (data (onDocumentClick P el w)) = sectionViews (data w)"
  "sectionViews (data (trackClick P ty tg md w)) = sectionViews (data w)"
  "clicks (data (page_of (logEvolution P descr w))) = clicks (data w)"
  "sectionViews (data (page_of (logEvolution P descr w))) = sectionViews (data w)"
  by (simp_all add: tracker_defs logEvolution_frame)

lemma counters_onSectionVisible:
  "clicks (data (onSectionVisible P s w)) = clicks (data w)"
  "counters_le (sectionViews (data w)) (sectionViews (data (onSectionVisible P s w)))"
proof -
  let ?w3 = "(updateSectionTime P w)\<lparr>currentSection := s,
      ticks := Suc (ticks (updateSectionTime P w)),
      sectionStartTime := clock P (ticks (updateSectionTime P w))\<rparr>"
  have e: "onSectionVisible P s w = trackSectionView P s ?w3"
    by (simp add: onSectionVisible_def Date_now_def Let_def)
  show "clicks (data (onSectionVisible P s w)) = clicks (data w)"
    by (simp add: e clicks_trackSectionView counters_kept)
  have "counters_le (sectionViews (data ?w3)) (sectionViews (data (trackSectionView P s ?w3)))"
    by (rule counters_le_trackSectionView)
  then show "counters_le (sectionViews (data w)) (sectionViews (data (onSectionVisible P s w)))"
    by (simp add: e counters_kept)
qed

lemma counters_action:
  assumes "r \<in> set setupEvolutionRules"
  shows "clicks (data (page_of (action r P w))) = clicks (data w)"
    and "sectionViews (data (page_of (action r P w))) = sectionViews (data w)"
  using assms
  by (auto simp add: setupEvolutionRules_def moveProjectsUp_def optimizeCTA_def
        setDarkThemeDefault_def highlightPopularProject_def revealAdditionalContent_def
        counters_kept split_beta Let_def)

lemma counters_applyIfDue:
  assumes "r \<in> set setupEvolutionRules"
  shows "clicks (data (page_of (applyIfDue P w r))) = clicks (data w)"
    and "sectionViews (data (page_of (applyIfDue P w r))) = sectionViews (data w)"
  by (simp_all add: applyIfDue_page Let_def counters_action [OF assms])

lemma counters_forEach_applyIfDue:
  assumes "set rs \<subseteq> set setupEvolutionRules"
  shows "clicks (data (page_of (forEach (applyIfDue P) w rs))) = clicks (data w)
     \<and> sectionViews (data (page_of (forEach (applyIfDue P) w rs))) = sectionViews (data w)"
  by (rule forEach_rel [where R = "\<lambda>a b. clicks (data b) = clicks (data a)
        \<and> sectionViews (data b) = sectionViews (data a)"])
     (use assms counters_applyIfDue in auto)

lemma counters_checkEvolutionRules:
  "clicks (data (page_of (checkEvolutionRules P w))) = clicks (data w)"
  "sectionViews (data (page_of (checkEvolutionRules P w))) = sectionViews (data w)"
  by (simp_all add: checkEvolutionRules_def counters_forEach_applyIfDue)

lemma step_counters_le:
  "e \<noteq> ResetData \<Longrightarrow>
     counters_le (clicks (data w)) (clicks (data (step P w e)))
     \<and> counters_le (sectionViews (data w)) (sectionViews (data (step P w e)))"
  by (cases e)
     (simp_all add: counters_kept counters_le_refl counters_le_trackClick
        counters_le_trackSectionView clicks_trackSectionView counters_onSectionVisible
        counters_checkEvolutionRules)

lemma run_counters_le:
  "ResetData \<notin> set es \<Longrightarrow>
     counters_le (clicks (data w)) (clicks (data (run P w es)))
     \<and> counters_le (sectionViews (data w)) (sectionViews (data (run P w es)))"
  unfolding run_def
proof (induction es arbitrary: w)
  case Nil
  then show ?case by (simp add: counters_le_refl)
next
  case (Cons e es)
  then have "e \<noteq> ResetData" "ResetData \<notin> set es" by auto
  from step_counters_le [OF this(1), of w P] Cons.IH [OF this(2), of "step P w e"]
  show ?case by (auto intro: counters_le_trans)
qed

text \<open>
  C8 (as amended). Across every sequence of calls of the tracker, of its listeners and of
  evaluations of the rules that does not contain \<open>resetData\<close>, no numeric counter of
  \<open>clicks\<close> or of \<open>sectionViews\<close> decreases or disappears.
\<close>

theorem counters_never_decrease:
  assumes "ResetData \<notin> set es"
  shows "(map_of (clicks (data w)) k = Some (Num a) \<longrightarrow>
            (\<exists>b. map_of (clicks (data (run P w es))) k = Some (Num b) \<and> a \<le> b))
       \<and> (map_of (sectionViews (data w)) k = Some (Num a) \<longrightarrow>
            (\<exists>b. map_of (sectionViews (data (run P w es))) k = Some (Num b) \<and> a \<le> b))"
  using run_counters_le [OF assms, of w P] by (simp add: counters_le_def)

text \<open>Four clicks on a call to action stay counted through a section view, a click and
  an evaluation of the rules.\<close>

theorem counters_never_decrease_witness:
  "ResetData \<notin> set [SectionVisible ''about'', TrackClick ''cta'' None [], CheckEvolutionRules]
   \<and> map_of (clicks (data engagedPage)) ''cta'' = Some (Num 4)
   \<and> (\<exists>b. map_of (clicks (data (run testPlatform engagedPage
              [SectionVisible ''about'', TrackClick ''cta'' None [], CheckEvolutionRules])))
            ''cta'' = Some (Num b) \<and> 4 \<le> b)"
  using counters_never_decrease [of "[SectionVisible ''about'', TrackClick ''cta'' None [],
          CheckEvolutionRules]" engagedPage "''cta''" 4 testPlatform]
  by (simp add: engagedPage_def blankPage_def engagedData_def defaultData_def)

text \<open>C8 as stated fails at \<open>resetData\<close>, which sets every counter to zero.\<close>

theorem resetData_decreases_counter:
  "map_of (clicks (data engagedPage)) ''cta'' = Some (Num 4)
   \<and> map_of (clicks (data (step testPlatform engagedPage ResetData))) ''cta'' = Some (Num 0)"
  by (simp add: resetData_def Date_now_def data_saveData Let_def engagedPage_def blankPage_def
        engagedData_def defaultData_def)

section \<open>The call-to-action rule\<close>

lemma labels_frame_refl: "labels_frame w w"
  by (simp add: labels_frame_def)

lemma labels_frame_trans: "labels_frame w w1 \<Longrightarrow> labels_frame w1 w2 \<Longrightarrow> labels_frame w w2"
  by (simp add: labels_frame_def)

lemma labels_frame_engine: "engine_frame w w' \<Longrightarrow> labels_frame w w'"
  by (simp add: labels_frame_def engine_frame_def)

lemma labels_frame_setDarkThemeDefault: "labels_frame w (page_of (setDarkThemeDefault P w))"
proof (cases "darkThemeClass w")
  case True
  then show ?thesis by (simp add: setDarkThemeDefault_def labels_frame_refl)
next
  case False
  have "labels_frame w (trackThemePreference P ''dark'' (w\<lparr>darkThemeClass := True\<rparr>))"
    using frame_trackThemePreference [of "w\<lparr>darkThemeClass := True\<rparr>" P "''dark''"]
    by (simp add: labels_frame_def engine_frame_def)
  then show ?thesis
    using False
    by (auto simp add: setDarkThemeDefault_def intro: labels_frame_trans logEvolution_frame(2))
qed

lemma labels_frame_action:
  "r \<in> set setupEvolutionRules \<Longrightarrow> name r \<noteq> ''cta_optimization'' \<Longrightarrow>
     labels_frame w (page_of (action r P w))"
  by (auto simp add: setupEvolutionRules_def moveProjectsUp_def highlightPopularProject_def
        revealAdditionalContent_def logEvolution_frame labels_frame_refl
        labels_frame_setDarkThemeDefault)

lemma labels_frame_applyIfDue:
  assumes "r \<in> set setupEvolutionRules"
    and "name r = ''cta_optimization'' \<longrightarrow> ''cta_optimization'' \<in> currentEvolutions w"
  shows "labels_frame w (page_of (applyIfDue P w r))"
proof (cases "fst (shouldApplyRule P r (data w) w)")
  case False
  then show ?thesis by (simp add: applyIfDue_page labels_frame_def)
next
  case True
  then have "name r \<notin> currentEvolutions w" by (simp add: shouldApplyRule_eq)
  with assms(2) have n: "name r \<noteq> ''cta_optimization''" by auto
  let ?w1 = "w\<lparr>ticks := Suc (ticks w),
               actionTrace := actionTrace w @ [(name r, clock P (ticks w))]\<rparr>"
  from labels_frame_action [OF assms(1) n, of ?w1 P] True show ?thesis
    by (simp add: applyIfDue_page Let_def labels_frame_def)
qed

lemma labels_frame_forEach_active:
  assumes "set rs \<subseteq> set setupEvolutionRules" "''cta_optimization'' \<in> currentEvolutions w"
  shows "labels_frame w (page_of (forEach (applyIfDue P) w rs))"
proof -
  have "''cta_optimization'' \<in> currentEvolutions w \<longrightarrow>
      ''cta_optimization'' \<in> currentEvolutions (page_of (forEach (applyIfDue P) w rs))
      \<and> labels_frame w (page_of (forEach (applyIfDue P) w rs))"
  proof (rule forEach_rel [where R = "\<lambda>a b. ''cta_optimization'' \<in> currentEvolutions a \<longrightarrow>
          ''cta_optimization'' \<in> currentEvolutions b \<and> labels_frame a b"])
    fix a x
    assume x: "x \<in> set rs"
    with assms(1) have r: "x \<in> set setupEvolutionRules" by auto
    show "''cta_optimization'' \<in> currentEvolutions a \<longrightarrow>
        ''cta_optimization'' \<in> currentEvolutions (page_of (applyIfDue P a x))
        \<and> labels_frame a (page_of (applyIfDue P a x))"
      using applyIfDue_active [OF r, of "''cta_optimization''" a P]
        labels_frame_applyIfDue [OF r, of a P] by simp
  next
    fix a
    show "''cta_optimization'' \<in> currentEvolutions a \<longrightarrow>
        ''cta_optimization'' \<in> currentEvolutions a \<and> labels_frame a a"
      by (simp add: labels_frame_refl)
  next
    fix a b c
    assume "''cta_optimization'' \<in> currentEvolutions a \<longrightarrow>
        ''cta_optimization'' \<in> currentEvolutions b \<and> labels_frame a b"
      and "''cta_optimization'' \<in> currentEvolutions b \<longrightarrow>
        ''cta_optimization'' \<in> currentEvolutions c \<and> labels_frame b c"
    then show "''cta_optimization'' \<in> currentEvolutions a \<longrightarrow>
        ''cta_optimization'' \<in> currentEvolutions c \<and> labels_frame a c"
      by (auto intro: labels_frame_trans)
  qed
  with assms(2) show ?thesis by simp
qed

lemma labels_frame_step_active:
  "''cta_optimization'' \<in> currentEvolutions w \<Longrightarrow> labels_frame w (step P w e)"
  by (cases e)
     (simp_all add: frames [THEN labels_frame_engine] checkEvolutionRules_def
        labels_frame_forEach_active,
      simp_all add: labels_frame_def)

lemma labels_frame_run_active:
  "''cta_optimization'' \<in> currentEvolutions w \<Longrightarrow> labels_frame w (run P w es)"
proof (induction es arbitrary: w)
  case Nil
  then show ?case by (simp add: run_def labels_frame_refl)
next
  case (Cons e es)
  from step_active [OF Cons.prems, of P e]
  have "''cta_optimization'' \<in> currentEvolutions (step P w e)" by simp
  from Cons.IH [OF this] labels_frame_step_active [OF Cons.prems, of P e]
  show ?case by (auto simp add: run_def intro: labels_frame_trans)
qed

lemma cta_not_inherited: "''cta'' \<notin> set Object_prototype_names"
  by (simp add: Object_prototype_names_def)

lemma cta_click_counts:
  "map_of (clicks (data w)) k = Some (Num n) \<Longrightarrow>
     map_of (clicks (data (trackClick P ''cta'' None [] w))) k
       = Some (Num (n + (if k = ''cta'' then 1 else 0)))"
  using trackClick_own_names(1) [OF cta_not_inherited, of None w k n P "[]"] by simp

lemma fourCtaClicks_count:
  assumes "map_of (clicks (data w)) k = Some (Num n)"
  shows "map_of (clicks (data (run P w fourCtaClicks))) k
           = Some (Num (n + (if k = ''cta'' then 4 else 0)))"
proof -
  let ?w1 = "trackClick P ''cta'' None [] w"
  let ?w2 = "trackClick P ''cta'' None [] ?w1"
  let ?w3 = "trackClick P ''cta'' None [] ?w2"
  note 1 = cta_click_counts [OF assms, of P]
  note 2 = cta_click_counts [OF 1, of P]
  note 3 = cta_click_counts [OF 2, of P]
  from cta_click_counts [OF 3, of P] show ?thesis by (simp add: fourCtaClicks_eq)
qed

lemma fourCtaClicks_frame:
  "engine_frame w (run P w fourCtaClicks)"
  "ticks (run P w fourCtaClicks) = ticks w + 4"
proof -
  show "engine_frame w (run P w fourCtaClicks)"
    unfolding fourCtaClicks_eq by (blast intro: engine_frame_trans frame_trackClick)
  show "ticks (run P w fourCtaClicks) = ticks w + 4"
    by (simp add: fourCtaClicks_eq trackClick_frame)
qed

lemma cta_condition:
  "map_of (clicks d) ''cta'' = Some (Num n) \<Longrightarrow> 3 < n \<Longrightarrow> condition ctaRule d"
  by (simp add: setupEvolutionRules_def ctaRule_def counter_def js_get_def)

lemma cta_condition_false:
  "map_of (clicks d) ''cta'' = Some (Num 0) \<Longrightarrow> map_of (clicks d) ''contact'' = Some (Num 0)
     \<Longrightarrow> \<not> condition ctaRule d"
  by (simp add: setupEvolutionRules_def ctaRule_def counter_def js_get_def)

lemma projects_condition_false:
  "map_of (clicks d) ''projects'' = Some (Num 0) \<Longrightarrow> map_of (clicks d) ''about'' = Some (Num 0)
     \<Longrightarrow> \<not> condition projectsRule d"
  by (simp add: setupEvolutionRules_def projectsRule_def counter_def js_get_def)

text \<open>\<open>optimizeCTA\<close> on a page that has the three buttons: the labels are written, then the
  entry is logged.\<close>

lemma optimizeCTA_eq:
  assumes "contactHeroSpan w = Some a" "exploreProjectsSpan w = Some b"
    "submitContactSpan w = Some c"
  shows "optimizeCTA P w =
     logEvolution P ''CTA buttons optimized based on engagement!''
       (w\<lparr>contactHeroSpan := Some ''Let's Build Together!'',
          exploreProjectsSpan := Some seeMyWork,
          submitContactSpan := Some ''Send Message Now!'',
          textWrites := textWrites w @ ctaLabels\<rparr>)"
  using assms by (simp add: optimizeCTA_def setSpanText_def ctaLabels_def)

lemma optimizeCTA_labels:
  assumes "contactHeroSpan w = Some a" "exploreProjectsSpan w = Some b"
    "submitContactSpan w = Some c"
  shows "textWrites (page_of (optimizeCTA P w)) = textWrites w @ ctaLabels"
    and "contactHeroSpan (page_of (optimizeCTA P w)) = Some ''Let's Build Together!''"
    and "exploreProjectsSpan (page_of (optimizeCTA P w)) = Some seeMyWork"
    and "submitContactSpan (page_of (optimizeCTA P w)) = Some ''Send Message Now!''"
proof -
  let ?w1 = "w\<lparr>contactHeroSpan := Some ''Let's Build Together!'',
          exploreProjectsSpan := Some seeMyWork,
          submitContactSpan := Some ''Send Message Now!'',
          textWrites := textWrites w @ ctaLabels\<rparr>"
  note f = logEvolution_frame(2) [of ?w1 P "''CTA buttons optimized based on engagement!''"]
  show "textWrites (page_of (optimizeCTA P w)) = textWrites w @ ctaLabels"
    using f by (simp add: optimizeCTA_eq [OF assms] labels_frame_def)
  show "contactHeroSpan (page_of (optimizeCTA P w)) = Some ''Let's Build Together!''"
    using f by (simp add: optimizeCTA_eq [OF assms] labels_frame_def)
  show "exploreProjectsSpan (page_of (optimizeCTA P w)) = Some seeMyWork"
    using f by (simp add: optimizeCTA_eq [OF assms] labels_frame_def)
  show "submitContactSpan (page_of (optimizeCTA P w)) = Some ''Send Message Now!''"
    using f by (simp add: optimizeCTA_eq [OF assms] labels_frame_def)
qed

lemma applyIfDue_cta_due:
  assumes cond: "condition ctaRule (data w)"
    and inactive: "''cta_optimization'' \<notin> currentEvolutions w"
    and never: "lastAppliedTimes w ''cta_optimization'' = None"
    and late: "45000 < clock P (ticks w)"
    and buttons: "contactHeroSpan w = Some a" "exploreProjectsSpan w = Some b"
      "submitContactSpan w = Some c"
    and array: "is_array (evolutionHistory w)"
  shows "textWrites (page_of (applyIfDue P w ctaRule)) = textWrites w @ ctaLabels"
    and "contactHeroSpan (page_of (applyIfDue P w ctaRule)) = Some ''Let's Build Together!''"
    and "exploreProjectsSpan (page_of (applyIfDue P w ctaRule)) = Some seeMyWork"
    and "submitContactSpan (page_of (applyIfDue P w ctaRule)) = Some ''Send Message Now!''"
    and "''cta_optimization'' \<in> currentEvolutions (page_of (applyIfDue P w ctaRule))"
    and "calls ''cta_optimization'' (page_of (applyIfDue P w ctaRule))
           = calls ''cta_optimization'' w @ [(''cta_optimization'', clock P (ticks w))]"
proof -
  let ?r = "ctaRule"
  let ?w1 = "w\<lparr>ticks := Suc (ticks w),
               actionTrace := actionTrace w @ [(''cta_optimization'', clock P (ticks w))]\<rparr>"
  let ?w2 = "page_of (optimizeCTA P ?w1)"
  have due: "fst (shouldApplyRule P ?r (data w) w)"
    using cond inactive never late by (simp add: shouldApplyRule_eq rule_table)
  have ret: "returned (optimizeCTA P ?w1)"
    using array_action [OF rule_table(6), of ?w1 P] array by (simp add: rule_table)
  have eq: "page_of (applyIfDue P w ?r) =
      ?w2\<lparr>currentEvolutions := insert ''cta_optimization'' (currentEvolutions ?w2),
         ticks := Suc (ticks ?w2),
         lastAppliedTimes := (lastAppliedTimes ?w2)(''cta_optimization'' \<mapsto> clock P (ticks ?w2))\<rparr>"
    using due ret by (simp add: applyIfDue_page Let_def rule_table)
  have fr: "rules_frame ?w1 ?w2" by (rule rules_frame_optimizeCTA)
  have b: "contactHeroSpan ?w1 = Some a" "exploreProjectsSpan ?w1 = Some b"
    "submitContactSpan ?w1 = Some c"
    using buttons by simp_all
  note lab = optimizeCTA_labels [OF b, of P]
  show "textWrites (page_of (applyIfDue P w ?r)) = textWrites w @ ctaLabels"
    unfolding eq using lab(1) by simp
  show "contactHeroSpan (page_of (applyIfDue P w ?r)) = Some ''Let's Build Together!''"
    unfolding eq using lab(2) by simp
  show "exploreProjectsSpan (page_of (applyIfDue P w ?r)) = Some seeMyWork"
    unfolding eq using lab(3) by simp
  show "submitContactSpan (page_of (applyIfDue P w ?r)) = Some ''Send Message Now!''"
    unfolding eq using lab(4) by simp
  show "''cta_optimization'' \<in> currentEvolutions (page_of (applyIfDue P w ?r))"
    unfolding eq by simp
  show "calls ''cta_optimization'' (page_of (applyIfDue P w ?r))
           = calls ''cta_optimization'' w @ [(''cta_optimization'', clock P (ticks w))]"
    unfolding eq using fr by (simp add: calls_def rules_frame_def)
qed

lemma checkEvolutionRules_unfold:
  assumes "is_array (evolutionHistory w)"
  shows "page_of (checkEvolutionRules P w) =
     page_of (forEach (applyIfDue P)
       (page_of (applyIfDue P (page_of (applyIfDue P w projectsRule)) ctaRule)) laterRules)"
proof -
  note a = array_applyIfDue [OF rule_table(5) assms, of P]
  from a have a1: "returned (applyIfDue P w projectsRule)"
    and a2: "is_array (evolutionHistory (page_of (applyIfDue P w projectsRule)))" by simp_all
  note b = array_applyIfDue [OF rule_table(6) a2, of P]
  from b have b1: "returned (applyIfDue P (page_of (applyIfDue P w projectsRule)) ctaRule)"
    by simp
  show ?thesis
    unfolding checkEvolutionRules_def rule_list
    by (simp only: forEach_returned [of "applyIfDue P" w projectsRule, OF a1]
          forEach_returned [of "applyIfDue P" "page_of (applyIfDue P w projectsRule)" ctaRule, OF b1])
qed

text \<open>The same from any page on which the rule has not been applied.\<close>

lemma cta_fires_after_four_clicks:
  assumes cta0: "map_of (clicks (data w)) ''cta'' = Some (Num 0)"
    and inactive: "''cta_optimization'' \<notin> currentEvolutions w"
    and never: "lastAppliedTimes w ''cta_optimization'' = None"
    and epoch: "\<forall>n. 45000 < clock P n"
    and buttons: "contactHeroSpan w = Some a" "exploreProjectsSpan w = Some b"
      "submitContactSpan w = Some c"
    and array: "is_array (evolutionHistory w)"
  shows "condition ctaRule (data (run P w fourCtaClicks))
     \<and> returned (checkEvolutionRules P (run P w fourCtaClicks))
     \<and> textWrites (page_of (checkEvolutionRules P (run P w fourCtaClicks)))
         = textWrites w @ ctaLabels
     \<and> textWrites (run P (page_of (checkEvolutionRules P (run P w fourCtaClicks))) es)
         = textWrites w @ ctaLabels
     \<and> contactHeroSpan (run P (page_of (checkEvolutionRules P (run P w fourCtaClicks))) es)
         = Some ''Let's Build Together!''
     \<and> exploreProjectsSpan (run P (page_of (checkEvolutionRules P (run P w fourCtaClicks))) es)
         = Some seeMyWork
     \<and> submitContactSpan (run P (page_of (checkEvolutionRules P (run P w fourCtaClicks))) es)
         = Some ''Send Message Now!''
     \<and> (\<exists>t. calls ''cta_optimization''
               (run P (page_of (checkEvolutionRules P (run P w fourCtaClicks))) es)
              = calls ''cta_optimization'' w @ [(''cta_optimization'', t)])"
proof -
  let ?r0 = "projectsRule"
  let ?r1 = "ctaRule"
  let ?rest = "laterRules"
  let ?w4 = "run P w fourCtaClicks"
  let ?wa = "page_of (applyIfDue P ?w4 ?r0)"
  let ?wb = "page_of (applyIfDue P ?wa ?r1)"
  let ?wc = "page_of (forEach (applyIfDue P) ?wb ?rest)"
  have f4: "engine_frame w ?w4" by (rule fourCtaClicks_frame)
  have arr4: "is_array (evolutionHistory ?w4)" using array f4 by (simp add: engine_frame_def)
  have check: "page_of (checkEvolutionRules P ?w4) = ?wc"
    using arr4 by (rule checkEvolutionRules_unfold)
  have ret: "returned (checkEvolutionRules P ?w4)"
    using array_checkEvolutionRules [OF arr4, of P] by simp
  have c4: "map_of (clicks (data ?w4)) ''cta'' = Some (Num 4)"
    using fourCtaClicks_count [OF cta0, of P] by simp
  have cond4: "condition ?r1 (data ?w4)" using c4 by (rule cta_condition) simp
  have n0: "''cta_optimization'' \<noteq> name ?r0" by (simp add: rule_table)
  have la: "labels_frame ?w4 ?wa"
    by (rule labels_frame_applyIfDue) (simp_all add: rule_table)
  have arra: "is_array (evolutionHistory ?wa)"
    using array_applyIfDue [OF rule_table(5) arr4, of P] by simp
  have ca: "map_of (clicks (data ?wa)) ''cta'' = Some (Num 4)"
    using c4 by (simp add: counters_applyIfDue rule_table)
  have conda: "condition ?r1 (data ?wa)" using ca by (rule cta_condition) simp
  have ia: "''cta_optimization'' \<notin> currentEvolutions ?wa"
    using inactive f4 applyIfDue_other(1) [OF rule_table(5) n0, of P ?w4]
    by (simp add: engine_frame_def)
  have na: "lastAppliedTimes ?wa ''cta_optimization'' = None"
    using never f4 applyIfDue_other(2) [OF rule_table(5) n0, of P ?w4]
    by (simp add: engine_frame_def)
  have cla: "calls ''cta_optimization'' ?wa = calls ''cta_optimization'' w"
    using f4 applyIfDue_other(3) [OF rule_table(5) n0, of P ?w4]
    by (simp add: engine_frame_def calls_def)
  have ba: "contactHeroSpan ?wa = Some a" "exploreProjectsSpan ?wa = Some b"
    "submitContactSpan ?wa = Some c"
    using buttons f4 la by (simp_all add: engine_frame_def labels_frame_def)
  have ta: "textWrites ?wa = textWrites w"
    using f4 la by (simp add: engine_frame_def labels_frame_def)
  have late: "45000 < clock P (ticks ?wa)" using epoch by simp
  note b = applyIfDue_cta_due [OF conda ia na late ba arra]
  have act_c: "''cta_optimization'' \<in> currentEvolutions ?wc
        \<and> calls ''cta_optimization'' ?wc = calls ''cta_optimization'' ?wb"
    using forEach_applyIfDue_active [OF rule_table(7) b(5), of P] .
  have lc: "labels_frame ?wb ?wc"
    using rule_table(7) b(5) by (rule labels_frame_forEach_active)
  have act_e: "''cta_optimization'' \<in> currentEvolutions (run P ?wc es)
        \<and> calls ''cta_optimization'' (run P ?wc es) = calls ''cta_optimization'' ?wc"
    using act_c run_active [of "''cta_optimization''" ?wc P es] by simp
  have le: "labels_frame ?wc (run P ?wc es)"
    using act_c by (simp add: labels_frame_run_active)
  have t1: "textWrites ?wc = textWrites w @ ctaLabels"
    using lc b(1) ta by (simp add: labels_frame_def)
  have t2: "textWrites (run P ?wc es) = textWrites w @ ctaLabels"
    using le t1 by (simp add: labels_frame_def)
  have s1: "contactHeroSpan (run P ?wc es) = Some ''Let's Build Together!''"
    using le lc b(2) by (simp add: labels_frame_def)
  have s2: "exploreProjectsSpan (run P ?wc es) = Some seeMyWork"
    using le lc b(3) by (simp add: labels_frame_def)
  have s3: "submitContactSpan (run P ?wc es) = Some ''Send Message Now!''"
    using le lc b(4) by (simp add: labels_frame_def)
  have once: "calls ''cta_optimization'' (run P ?wc es)
       = calls ''cta_optimization'' w @ [(''cta_optimization'', clock P (ticks ?wa))]"
    using act_e act_c b(6) cla by simp
  show ?thesis
    unfolding check using cond4 ret t1 t2 s1 s2 s3 once by simp
qed

lemma forEach_applyIfDue_other:
  assumes "set rs \<subseteq> set setupEvolutionRules" "n \<notin> name ` set rs"
  shows "(n \<in> currentEvolutions (page_of (forEach (applyIfDue P) w rs))) = (n \<in> currentEvolutions w)
     \<and> lastAppliedTimes (page_of (forEach (applyIfDue P) w rs)) n = lastAppliedTimes w n
     \<and> calls n (page_of (forEach (applyIfDue P) w rs)) = calls n w"
proof (rule forEach_rel [where R = "\<lambda>a b. (n \<in> currentEvolutions b) = (n \<in> currentEvolutions a)
        \<and> lastAppliedTimes b n = lastAppliedTimes a n \<and> calls n b = calls n a"])
  fix a x
  assume "x \<in> set rs"
  with assms have r: "x \<in> set setupEvolutionRules" and n: "n \<noteq> name x" by auto
  from applyIfDue_other [OF r n, of P a]
  show "(n \<in> currentEvolutions (page_of (applyIfDue P a x))) = (n \<in> currentEvolutions a)
      \<and> lastAppliedTimes (page_of (applyIfDue P a x)) n = lastAppliedTimes a n
      \<and> calls n (page_of (applyIfDue P a x)) = calls n a"
    by simp
qed simp_all

lemma labels_frame_forEach_other:
  assumes "set rs \<subseteq> set setupEvolutionRules" "''cta_optimization'' \<notin> name ` set rs"
  shows "labels_frame w (page_of (forEach (applyIfDue P) w rs))"
proof (rule forEach_rel [where R = labels_frame])
  fix a x
  assume x: "x \<in> set rs"
  with assms(1) have r: "x \<in> set setupEvolutionRules" by auto
  from x assms(2) have n: "name x \<noteq> ''cta_optimization''" by (metis imageI)
  from n show "labels_frame a (page_of (applyIfDue P a x))"
    by (simp add: labels_frame_applyIfDue [OF r])
qed (auto intro: labels_frame_refl labels_frame_trans)

lemma laterRules_names: "''cta_optimization'' \<notin> name ` set laterRules"
  by (simp add: laterRules_def setupEvolutionRules_def)

lemma loadEvolutionHistory_frame:
  "data (snd (loadEvolutionHistory w)) = data w"
  "labels_frame w (snd (loadEvolutionHistory w))"
  "ticks (snd (loadEvolutionHistory w)) = ticks w"
  by (simp_all add: loadEvolutionHistory_eq console_warn_def labels_frame_def
        split: option.splits stored.splits)

text \<open>A new engine whose stored history is an array, and whose first evaluation finds no
  click on the calls to action or on contact, leaves \<open>cta_optimization\<close> unapplied.\<close>

lemma EvolutionEngine_cta_unapplied:
  assumes "map_of (clicks (data w)) ''cta'' = Some (Num 0)"
    and "map_of (clicks (data w)) ''contact'' = Some (Num 0)"
    and "is_array (fst (loadEvolutionHistory w))"
  shows "''cta_optimization'' \<notin> currentEvolutions (page_of (EvolutionEngine P w))"
    and "lastAppliedTimes (page_of (EvolutionEngine P w)) ''cta_optimization'' = None"
    and "calls ''cta_optimization'' (page_of (EvolutionEngine P w)) = []"
    and "labels_frame w (page_of (EvolutionEngine P w))"
    and "clicks (data (page_of (EvolutionEngine P w))) = clicks (data w)"
    and "returned (EvolutionEngine P w)"
    and "is_array (evolutionHistory (page_of (EvolutionEngine P w)))"
proof -
  obtain h w1 where l: "loadEvolutionHistory w = (h, w1)" by (cases "loadEvolutionHistory w")
  let ?w2 = "w1\<lparr>evolutionHistory := h, lastAppliedTimes := Map.empty,
                 currentEvolutions := {}, actionTrace := []\<rparr>"
  let ?wa = "page_of (applyIfDue P ?w2 projectsRule)"
  let ?wb = "page_of (applyIfDue P ?wa ctaRule)"
  let ?wc = "page_of (forEach (applyIfDue P) ?wb laterRules)"
  have arr: "is_array (evolutionHistory ?w2)" using assms(3) l by simp
  have e: "page_of (EvolutionEngine P w) = ?wc"
    using checkEvolutionRules_unfold [OF arr, of P] by (simp add: EvolutionEngine_def l)
  from loadEvolutionHistory_frame(1) [of w] l
  have d1: "data w1 = data w" by simp
  from loadEvolutionHistory_frame(2) [of w] l
  have l1: "labels_frame w w1" by simp
  have l2: "labels_frame w ?w2" using l1 by (simp add: labels_frame_def)
  have n0: "''cta_optimization'' \<noteq> name projectsRule" by (simp add: rule_table)
  note a = applyIfDue_other [OF rule_table(5) n0, of P ?w2]
  have la: "labels_frame ?w2 ?wa"
    by (rule labels_frame_applyIfDue) (simp_all add: rule_table)
  have ca: "clicks (data ?wa) = clicks (data w)"
    using d1 by (simp add: counters_applyIfDue rule_table)
  have "\<not> condition ctaRule (data ?wa)"
    using assms(1,2) by (intro cta_condition_false) (simp_all add: ca)
  then have b: "?wb = ?wa\<lparr>ticks := Suc (ticks ?wa)\<rparr>"
    by (simp add: applyIfDue_condition_false)
  note c = forEach_applyIfDue_other [OF rule_table(7) laterRules_names, of P ?wb]
  have lc: "labels_frame ?wb ?wc"
    using rule_table(7) laterRules_names by (rule labels_frame_forEach_other)
  show "''cta_optimization'' \<notin> currentEvolutions (page_of (EvolutionEngine P w))"
    unfolding e using c a(1) by (simp add: b)
  show "lastAppliedTimes (page_of (EvolutionEngine P w)) ''cta_optimization'' = None"
    unfolding e using c a(2) by (simp add: b)
  show "calls ''cta_optimization'' (page_of (EvolutionEngine P w)) = []"
    unfolding e using c a(3) by (simp add: b calls_def)
  show "labels_frame w (page_of (EvolutionEngine P w))"
    unfolding e using l2 la lc by (simp add: labels_frame_def b)
  show "clicks (data (page_of (EvolutionEngine P w))) = clicks (data w)"
    unfolding e using ca
    by (simp add: counters_forEach_applyIfDue counters_applyIfDue rule_table)
  show "returned (EvolutionEngine P w)"
    using array_checkEvolutionRules [OF arr, of P] by (simp add: EvolutionEngine_def l)
  show "is_array (evolutionHistory (page_of (EvolutionEngine P w)))"
    using array_checkEvolutionRules [OF arr, of P] by (simp add: EvolutionEngine_def l)
qed

text \<open>
  Let the engine be constructed on a page whose record has \<open>clicks.cta\<close> and
  \<open>clicks.contact\<close> at 0, whose three buttons exist and whose stored evolution history
  is an array (or absent, or unreadable), with a clock that reads more than 45000 ms after
  the epoch. After four calls \<open>trackClick('cta')\<close> the predicate of \<open>cta_optimization\<close>
  holds, the next evaluation of the rules writes the three labels and returns, and
  whatever happens afterwards the labels are not written again: in the session the
  action is called exactly once.
\<close>

lemma cta_rewritten_once:
  assumes "map_of (clicks (data w)) ''cta'' = Some (Num 0)"
    and "map_of (clicks (data w)) ''contact'' = Some (Num 0)"
    and "is_array (fst (loadEvolutionHistory w))"
    and "\<forall>n. 45000 < clock P n"
    and "contactHeroSpan w \<noteq> None \<and> exploreProjectsSpan w \<noteq> None
         \<and> submitContactSpan w \<noteq> None"
  shows "name ctaRule = ''cta_optimization''
     \<and> returned (EvolutionEngine P w)
     \<and> condition ctaRule (data (run P (page_of (EvolutionEngine P w)) fourCtaClicks))
     \<and> returned (checkEvolutionRules P (run P (page_of (EvolutionEngine P w)) fourCtaClicks))
     \<and> textWrites (page_of (checkEvolutionRules P
                      (run P (page_of (EvolutionEngine P w)) fourCtaClicks)))
         = textWrites w @ ctaLabels
     \<and> textWrites (run P (page_of (checkEvolutionRules P
                      (run P (page_of (EvolutionEngine P w)) fourCtaClicks))) es)
         = textWrites w @ ctaLabels
     \<and> contactHeroSpan (run P (page_of (checkEvolutionRules P
                      (run P (page_of (EvolutionEngine P w)) fourCtaClicks))) es)
         = Some ''Let's Build Together!''
     \<and> exploreProjectsSpan (run P (page_of (checkEvolutionRules P
                      (run P (page_of (EvolutionEngine P w)) fourCtaClicks))) es)
         = Some seeMyWork
     \<and> submitContactSpan (run P (page_of (checkEvolutionRules P
                      (run P (page_of (EvolutionEngine P w)) fourCtaClicks))) es)
         = Some ''Send Message Now!''
     \<and> length (calls ''cta_optimization''
                 (run P (page_of (checkEvolutionRules P
                      (run P (page_of (EvolutionEngine P w)) fourCtaClicks))) es)) = 1"
proof -
  let ?s0 = "page_of (EvolutionEngine P w)"
  note u = EvolutionEngine_cta_unapplied [OF assms(1,2,3), of P]
  have c: "map_of (clicks (data ?s0)) ''cta'' = Some (Num 0)"
    using assms(1) by (simp add: u(5))
  from assms(5) u(4) obtain a b c where b:
    "contactHeroSpan ?s0 = Some a" "exploreProjectsSpan ?s0 = Some b"
    "submitContactSpan ?s0 = Some c"
    by (auto simp add: labels_frame_def)
  have t: "textWrites ?s0 = textWrites w"
    using u(4) by (simp add: labels_frame_def)
  from cta_fires_after_four_clicks [OF c u(1) u(2) assms(4) b u(7), of es]
  show ?thesis by (auto simp add: t u(3) u(6) rule_table)
qed

section \<open>A stored history that is not an array\<close>

lemma forEach_idle:
  "\<forall>r \<in> set rs. \<not> condition r (data w) \<Longrightarrow>
     forEach (applyIfDue P) w rs = Returned (w\<lparr>ticks := ticks w + length rs\<rparr>)"
proof (induction rs arbitrary: w)
  case Nil
  then show ?case by simp
next
  case (Cons r rs)
  then have r: "\<not> condition r (data w)"
    and rs: "\<forall>r \<in> set rs. \<not> condition r (data (w\<lparr>ticks := Suc (ticks w)\<rparr>))" by simp_all
  from Cons.IH [OF rs] show ?case
    by (simp add: applyIfDue_condition_false [OF r])
qed

text \<open>When the history is not an array, \<open>optimizeCTA\<close> writes the labels and then throws,
  so that the rule is neither marked active nor given a time of application.\<close>

lemma applyIfDue_cta_throws:
  assumes cond: "condition ctaRule (data w)"
    and inactive: "''cta_optimization'' \<notin> currentEvolutions w"
    and never: "lastAppliedTimes w ''cta_optimization'' = None"
    and late: "45000 < clock P (ticks w)"
    and buttons: "contactHeroSpan w = Some a" "exploreProjectsSpan w = Some b"
      "submitContactSpan w = Some c"
    and nonarray: "\<not> is_array (evolutionHistory w)"
  shows "applyIfDue P w ctaRule =
     Threw TypeError
       (w\<lparr>ticks := Suc (Suc (ticks w)),
          actionTrace := actionTrace w @ [(''cta_optimization'', clock P (ticks w))],
          contactHeroSpan := Some ''Let's Build Together!'',
          exploreProjectsSpan := Some seeMyWork,
          submitContactSpan := Some ''Send Message Now!'',
          textWrites := textWrites w @ ctaLabels\<rparr>)"
proof -
  let ?w1 = "w\<lparr>ticks := Suc (ticks w),
               actionTrace := actionTrace w @ [(''cta_optimization'', clock P (ticks w))]\<rparr>"
  have due: "fst (shouldApplyRule P ctaRule (data w) w)"
    using cond inactive never late by (simp add: shouldApplyRule_eq rule_table)
  have b: "contactHeroSpan ?w1 = Some a" "exploreProjectsSpan ?w1 = Some b"
    "submitContactSpan ?w1 = Some c"
    using buttons by simp_all
  have "optimizeCTA P ?w1 =
     Threw TypeError
       (w\<lparr>ticks := Suc (Suc (ticks w)),
          actionTrace := actionTrace w @ [(''cta_optimization'', clock P (ticks w))],
          contactHeroSpan := Some ''Let's Build Together!'',
          exploreProjectsSpan := Some seeMyWork,
          submitContactSpan := Some ''Send Message Now!'',
          textWrites := textWrites w @ ctaLabels\<rparr>)"
    using nonarray by (simp add: optimizeCTA_eq [OF b] logEvolution_throws)
  with due show ?thesis by (simp add: applyIfDue_eq rule_table)
qed

lemma checkEvolutionRules_cta_throws:
  assumes idle: "\<not> condition projectsRule (data w)"
    and cond: "condition ctaRule (data w)"
    and inactive: "''cta_optimization'' \<notin> currentEvolutions w"
    and never: "lastAppliedTimes w ''cta_optimization'' = None"
    and late: "45000 < clock P (Suc (ticks w))"
    and buttons: "contactHeroSpan w = Some a" "exploreProjectsSpan w = Some b"
      "submitContactSpan w = Some c"
    and nonarray: "\<not> is_array (evolutionHistory w)"
  shows "checkEvolutionRules P w =
     Threw TypeError
       (w\<lparr>ticks := Suc (Suc (Suc (ticks w))),
          actionTrace := actionTrace w @ [(''cta_optimization'', clock P (Suc (ticks w)))],
          contactHeroSpan := Some ''Let's Build Together!'',
          exploreProjectsSpan := Some seeMyWork,
          submitContactSpan := Some ''Send Message Now!'',
          textWrites := textWrites w @ ctaLabels\<rparr>)"
proof -
  let ?w1 = "w\<lparr>ticks := Suc (ticks w)\<rparr>"
  have first: "applyIfDue P w projectsRule = Returned ?w1"
    using idle by (rule applyIfDue_condition_false)
  have second: "applyIfDue P ?w1 ctaRule =
     Threw TypeError
       (?w1\<lparr>ticks := Suc (Suc (ticks ?w1)),
          actionTrace := actionTrace ?w1 @ [(''cta_optimization'', clock P (ticks ?w1))],
          contactHeroSpan := Some ''Let's Build Together!'',
          exploreProjectsSpan := Some seeMyWork,
          submitContactSpan := Some ''Send Message Now!'',
          textWrites := textWrites ?w1 @ ctaLabels\<rparr>)"
    by (rule applyIfDue_cta_throws [where a = a and b = b and c = c])
       (use cond inactive never late buttons nonarray in simp_all)
  show ?thesis
    unfolding checkEvolutionRules_def rule_list
    by (simp add: first second)
qed

text \<open>
  A session of a first visit whose stored history is not an array: the constructor of
  the engine returns, because no predicate holds yet; after four clicks on a call to
  action every evaluation of the rules writes the labels and throws.
\<close>

lemma nonarray_session:
  assumes idle: "\<forall>r \<in> set setupEvolutionRules. \<not> condition r (data w)"
    and c0: "map_of (clicks (data w)) ''cta'' = Some (Num 0)"
      "map_of (clicks (data w)) ''projects'' = Some (Num 0)"
      "map_of (clicks (data w)) ''about'' = Some (Num 0)"
    and st: "storage w \<noteq> Denied"
    and ls: "localStorage w ''evolutionHistory'' = Some (Json j)"
    and na: "\<not> is_array j"
    and buttons: "contactHeroSpan w = Some a" "exploreProjectsSpan w = Some b"
      "submitContactSpan w = Some c"
    and epoch: "\<forall>n. 45000 < clock P n"
  shows "EvolutionEngine P w =
           Returned (w\<lparr>evolutionHistory := j, lastAppliedTimes := Map.empty,
                       currentEvolutions := {}, actionTrace := [], ticks := ticks w + 5\<rparr>)"
    and "checkEvolutionRules P (run P (page_of (EvolutionEngine P w)) fourCtaClicks) =
           Threw TypeError
             ((run P (page_of (EvolutionEngine P w)) fourCtaClicks)
                \<lparr>ticks := ticks w + 12,
                 actionTrace := [(''cta_optimization'', clock P (ticks w + 10))],
                 contactHeroSpan := Some ''Let's Build Together!'',
                 exploreProjectsSpan := Some seeMyWork,
                 submitContactSpan := Some ''Send Message Now!'',
                 textWrites := textWrites w @ ctaLabels\<rparr>)"
    and "checkEvolutionRules P
           (page_of (checkEvolutionRules P (run P (page_of (EvolutionEngine P w)) fourCtaClicks))) =
           Threw TypeError
             ((run P (page_of (EvolutionEngine P w)) fourCtaClicks)
                \<lparr>ticks := ticks w + 15,
                 actionTrace := [(''cta_optimization'', clock P (ticks w + 10)),
                                 (''cta_optimization'', clock P (ticks w + 13))],
                 contactHeroSpan := Some ''Let's Build Together!'',
                 exploreProjectsSpan := Some seeMyWork,
                 submitContactSpan := Some ''Send Message Now!'',
                 textWrites := textWrites w @ ctaLabels @ ctaLabels\<rparr>)"
    and "engine_frame
           (w\<lparr>evolutionHistory := j, lastAppliedTimes := Map.empty,
              currentEvolutions := {}, actionTrace := [], ticks := ticks w + 5\<rparr>)
           (run P (page_of (EvolutionEngine P w)) fourCtaClicks)"
    and "condition ctaRule (data (run P (page_of (EvolutionEngine P w)) fourCtaClicks))"
    and "map_of (clicks (data (run P (page_of (EvolutionEngine P w)) fourCtaClicks))) ''cta''
           = Some (Num 4)"
proof -
  let ?s0 = "w\<lparr>evolutionHistory := j, lastAppliedTimes := Map.empty,
               currentEvolutions := {}, actionTrace := [], ticks := ticks w + 5\<rparr>"
  have l: "loadEvolutionHistory w = (j, w)"
    using st ls by (simp add: loadEvolutionHistory_eq)
  have len: "length setupEvolutionRules = 5" by (simp add: setupEvolutionRules_def)
  show e0: "EvolutionEngine P w = Returned ?s0"
    using idle
    by (simp add: EvolutionEngine_def l checkEvolutionRules_def forEach_idle len)
  let ?s4 = "run P ?s0 fourCtaClicks"
  have f4: "engine_frame ?s0 ?s4" by (rule fourCtaClicks_frame)
  have t4: "ticks ?s4 = ticks w + 9" by (simp add: fourCtaClicks_frame(2))
  have c0': "map_of (clicks (data ?s0)) ''cta'' = Some (Num 0)"
    "map_of (clicks (data ?s0)) ''projects'' = Some (Num 0)"
    "map_of (clicks (data ?s0)) ''about'' = Some (Num 0)"
    using c0 by simp_all
  have c4: "map_of (clicks (data ?s4)) ''cta'' = Some (Num 4)"
    "map_of (clicks (data ?s4)) ''projects'' = Some (Num 0)"
    "map_of (clicks (data ?s4)) ''about'' = Some (Num 0)"
    using fourCtaClicks_count [OF c0'(1), of P] fourCtaClicks_count [OF c0'(2), of P]
      fourCtaClicks_count [OF c0'(3), of P]
    by simp_all
  have idle4: "\<not> condition projectsRule (data ?s4)"
    using c4(2,3) by (rule projects_condition_false)
  have cond4: "condition ctaRule (data ?s4)" using c4(1) by (rule cta_condition) simp
  have h4: "''cta_optimization'' \<notin> currentEvolutions ?s4"
    "lastAppliedTimes ?s4 ''cta_optimization'' = None"
    "45000 < clock P (Suc (ticks ?s4))"
    "contactHeroSpan ?s4 = Some a" "exploreProjectsSpan ?s4 = Some b"
    "submitContactSpan ?s4 = Some c"
    "\<not> is_array (evolutionHistory ?s4)"
    using f4 buttons na epoch by (simp_all add: engine_frame_def)
  have a4: "actionTrace ?s4 = []" "textWrites ?s4 = textWrites w"
    using f4 by (simp_all add: engine_frame_def)
  let ?s5 = "?s4\<lparr>ticks := ticks w + 12,
                 actionTrace := [(''cta_optimization'', clock P (ticks w + 10))],
                 contactHeroSpan := Some ''Let's Build Together!'',
                 exploreProjectsSpan := Some seeMyWork,
                 submitContactSpan := Some ''Send Message Now!'',
                 textWrites := textWrites w @ ctaLabels\<rparr>"
  have t12: "Suc (Suc (Suc (ticks ?s4))) = ticks w + 12" "Suc (ticks ?s4) = ticks w + 10"
    by (simp_all add: t4)
  have c1: "checkEvolutionRules P ?s4 = Threw TypeError ?s5"
    using checkEvolutionRules_cta_throws [OF idle4 cond4 h4, unfolded t12 a4] by simp
  have h5: "\<not> condition projectsRule (data ?s5)" "condition ctaRule (data ?s5)"
    "''cta_optimization'' \<notin> currentEvolutions ?s5"
    "lastAppliedTimes ?s5 ''cta_optimization'' = None"
    "45000 < clock P (Suc (ticks ?s5))"
    "contactHeroSpan ?s5 = Some ''Let's Build Together!''"
    "exploreProjectsSpan ?s5 = Some seeMyWork"
    "submitContactSpan ?s5 = Some ''Send Message Now!''"
    "\<not> is_array (evolutionHistory ?s5)"
    using idle4 cond4 h4 epoch by simp_all
  have t15: "Suc (Suc (Suc (ticks ?s5))) = ticks w + 15" "Suc (ticks ?s5) = ticks w + 13"
    by simp_all
  have c2: "checkEvolutionRules P ?s5 =
           Threw TypeError
             (?s4\<lparr>ticks := ticks w + 15,
                 actionTrace := [(''cta_optimization'', clock P (ticks w + 10)),
                                 (''cta_optimization'', clock P (ticks w + 13))],
                 contactHeroSpan := Some ''Let's Build Together!'',
                 exploreProjectsSpan := Some seeMyWork,
                 submitContactSpan := Some ''Send Message Now!'',
                 textWrites := textWrites w @ ctaLabels @ ctaLabels\<rparr>)"
    using checkEvolutionRules_cta_throws [OF h5, unfolded t15] by simp
  show "checkEvolutionRules P (run P (page_of (EvolutionEngine P w)) fourCtaClicks) =
           Threw TypeError
             ((run P (page_of (EvolutionEngine P w)) fourCtaClicks)
                \<lparr>ticks := ticks w + 12,
                 actionTrace := [(''cta_optimization'', clock P (ticks w + 10))],
                 contactHeroSpan := Some ''Let's Build Together!'',
                 exploreProjectsSpan := Some seeMyWork,
                 submitContactSpan := Some ''Send Message Now!'',
                 textWrites := textWrites w @ ctaLabels\<rparr>)"
    unfolding e0 page_of.simps by (rule c1)
  show "checkEvolutionRules P
           (page_of (checkEvolutionRules P (run P (page_of (EvolutionEngine P w)) fourCtaClicks))) =
           Threw TypeError
             ((run P (page_of (EvolutionEngine P w)) fourCtaClicks)
                \<lparr>ticks := ticks w + 15,
                 actionTrace := [(''cta_optimization'', clock P (ticks w + 10)),
                                 (''cta_optimization'', clock P (ticks w + 13))],
                 contactHeroSpan := Some ''Let's Build Together!'',
                 exploreProjectsSpan := Some seeMyWork,
                 submitContactSpan := Some ''Send Message Now!'',
                 textWrites := textWrites w @ ctaLabels @ ctaLabels\<rparr>)"
    unfolding e0 page_of.simps c1 by (rule c2)
  show "engine_frame ?s0 (run P (page_of (EvolutionEngine P w)) fourCtaClicks)"
    unfolding e0 page_of.simps by (rule f4)
  show "condition ctaRule (data (run P (page_of (EvolutionEngine P w)) fourCtaClicks))"
    unfolding e0 page_of.simps by (rule cond4)
  show "map_of (clicks (data (run P (page_of (EvolutionEngine P w)) fourCtaClicks))) ''cta''
           = Some (Num 4)"
    unfolding e0 page_of.simps by (rule c4(1))
qed

text \<open>The first visit of a browser whose storage holds \<open>{}\<close> under the key of the
  evolution history: the page that the constructor of the tracker leaves.\<close>

lemma firstVisit_eq:
  "InteractionTracker testPlatform storedObjectPage = Some firstVisit"
  "firstVisit =
     storedObjectPage
       \<lparr>ticks := 3,
        data := defaultData
          \<lparr>visitCount := 1, lastVisit := Some ''Tue Nov 14 2023'',
           interactions := [[(''type'', JString ''visit''), (''timestamp'', JNumber 1700000002000)]]\<rparr>,
        localStorage := (localStorage storedObjectPage)
          (''portfolioInteractionData'' \<mapsto> Json (toJSON (defaultData
             \<lparr>visitCount := 1, lastVisit := Some ''Tue Nov 14 2023'',
              interactions := [[(''type'', JString ''visit''),
                                (''timestamp'', JNumber 1700000002000)]]\<rparr>)))\<rparr>"
proof -
  have f: "falsy (fst (loadData storedObjectPage))" "snd (loadData storedObjectPage) = storedObjectPage"
    by (simp_all add: loadData_eq storedObjectPage_def blankPage_def falsy_def)
  have i: "InteractionTracker testPlatform storedObjectPage =
     Some (storedObjectPage
       \<lparr>ticks := 3,
        data := defaultData
          \<lparr>visitCount := 1, lastVisit := Some ''Tue Nov 14 2023'',
           interactions := [[(''type'', JString ''visit''), (''timestamp'', JNumber 1700000002000)]]\<rparr>,
        localStorage := (localStorage storedObjectPage)
          (''portfolioInteractionData'' \<mapsto> Json (toJSON (defaultData
             \<lparr>visitCount := 1, lastVisit := Some ''Tue Nov 14 2023'',
              interactions := [[(''type'', JString ''visit''),
                                (''timestamp'', JNumber 1700000002000)]]\<rparr>)))\<rparr>)"
    by (simp add: InteractionTracker_def tracker_init_def tracker_fields_default [OF f(1)] f(2)
          incrementVisitCount_eq saveData_eq)
       (simp add: storedObjectPage_def blankPage_def testPlatform_def defaultData_def)
  then show "firstVisit =
     storedObjectPage
       \<lparr>ticks := 3,
        data := defaultData
          \<lparr>visitCount := 1, lastVisit := Some ''Tue Nov 14 2023'',
           interactions := [[(''type'', JString ''visit''), (''timestamp'', JNumber 1700000002000)]]\<rparr>,
        localStorage := (localStorage storedObjectPage)
          (''portfolioInteractionData'' \<mapsto> Json (toJSON (defaultData
             \<lparr>visitCount := 1, lastVisit := Some ''Tue Nov 14 2023'',
              interactions := [[(''type'', JString ''visit''),
                                (''timestamp'', JNumber 1700000002000)]]\<rparr>)))\<rparr>"
    by (simp add: firstVisit_def)
  with i show "InteractionTracker testPlatform storedObjectPage = Some firstVisit" by simp
qed

lemma firstVisit_session:
  "\<forall>r \<in> set setupEvolutionRules. \<not> condition r (data firstVisit)"
  "map_of (clicks (data firstVisit)) ''cta'' = Some (Num 0)"
  "map_of (clicks (data firstVisit)) ''projects'' = Some (Num 0)"
  "map_of (clicks (data firstVisit)) ''about'' = Some (Num 0)"
  "storage firstVisit \<noteq> Denied"
  "localStorage firstVisit ''evolutionHistory'' = Some (Json (JObject []))"
  "\<not> is_array (JObject [])"
  "contactHeroSpan firstVisit = Some ''Contact Me''"
  "exploreProjectsSpan firstVisit = Some ''Explore Projects''"
  "submitContactSpan firstVisit = Some ''Send Message''"
  "\<forall>n. 45000 < clock testPlatform n"
  by (simp_all add: firstVisit_eq(2) storedObjectPage_def blankPage_def testPlatform_def
        is_array_def setupEvolutionRules_def defaultData_def counter_def js_get_def)

lemma firstVisit_pages:
  "evolutionHistory fourClicks = JObject []"
  "currentEvolutions fourClicks = {}"
  "lastAppliedTimes fourClicks = Map.empty"
  "condition ctaRule (data fourClicks)"
  "checkEvolutionRules testPlatform fourClicks = Threw TypeError oneEvaluation"
  "checkEvolutionRules testPlatform oneEvaluation = Threw TypeError twoEvaluations"
  "oneEvaluation =
     fourClicks\<lparr>ticks := 15,
                 actionTrace := [(''cta_optimization'', 1700000013000)],
                 contactHeroSpan := Some ''Let's Build Together!'',
                 exploreProjectsSpan := Some seeMyWork,
                 submitContactSpan := Some ''Send Message Now!'',
                 textWrites := ctaLabels\<rparr>"
  "twoEvaluations =
     fourClicks\<lparr>ticks := 18,
                 actionTrace := [(''cta_optimization'', 1700000013000),
                                 (''cta_optimization'', 1700000016000)],
                 contactHeroSpan := Some ''Let's Build Together!'',
                 exploreProjectsSpan := Some seeMyWork,
                 submitContactSpan := Some ''Send Message Now!'',
                 textWrites := ctaLabels @ ctaLabels\<rparr>"
  "map_of (clicks (data fourClicks)) ''cta'' = Some (Num 4)"
  "returned (EvolutionEngine testPlatform firstVisit)"
proof -
  note s = nonarray_session [OF firstVisit_session]
  have t: "ticks firstVisit = 3" "textWrites firstVisit = []"
    by (simp_all add: firstVisit_eq(2) storedObjectPage_def blankPage_def)
  have k: "clock testPlatform 13 = 1700000013000" "clock testPlatform 16 = 1700000016000"
    by (simp_all add: testPlatform_def)
  from s(4) show f: "evolutionHistory fourClicks = JObject []"
    "currentEvolutions fourClicks = {}" "lastAppliedTimes fourClicks = Map.empty"
    by (simp_all add: fourClicks_def engine_frame_def)
  from s(5) show "condition ctaRule (data fourClicks)" by (simp add: fourClicks_def)
  from s(6) show "map_of (clicks (data fourClicks)) ''cta'' = Some (Num 4)"
    by (simp add: fourClicks_def)
  from s(1) show "returned (EvolutionEngine testPlatform firstVisit)" by simp
  from s(2) show one: "oneEvaluation =
     fourClicks\<lparr>ticks := 15,
                 actionTrace := [(''cta_optimization'', 1700000013000)],
                 contactHeroSpan := Some ''Let's Build Together!'',
                 exploreProjectsSpan := Some seeMyWork,
                 submitContactSpan := Some ''Send Message Now!'',
                 textWrites := ctaLabels\<rparr>"
    by (simp add: oneEvaluation_def fourClicks_def t k)
  from s(3) show two: "twoEvaluations =
     fourClicks\<lparr>ticks := 18,
                 actionTrace := [(''cta_optimization'', 1700000013000),
                                 (''cta_optimization'', 1700000016000)],
                 contactHeroSpan := Some ''Let's Build Together!'',
                 exploreProjectsSpan := Some seeMyWork,
                 submitContactSpan := Some ''Send Message Now!'',
                 textWrites := ctaLabels @ ctaLabels\<rparr>"
    by (simp add: twoEvaluations_def oneEvaluation_def fourClicks_def t k)
  from s(2) show "checkEvolutionRules testPlatform fourClicks = Threw TypeError oneEvaluation"
    by (simp add: oneEvaluation_def fourClicks_def)
  from s(3) show "checkEvolutionRules testPlatform oneEvaluation = Threw TypeError twoEvaluations"
    by (simp add: twoEvaluations_def oneEvaluation_def fourClicks_def)
qed

text \<open>
  C2 fails when the storage holds, under the key of the evolution history, a text that
  parses to a value that is not an array, here \<open>{}\<close>. \<open>loadEvolutionHistory\<close> returns the
  object and the constructors return. After four clicks on a call to action the first
  evaluation of the rules calls \<open>optimizeCTA\<close>, whose \<open>logEvolution\<close> throws at \<open>push\<close>, so
  that \<open>checkEvolutionRules\<close> is left before the name is added to \<open>currentEvolutions\<close>.
  The second evaluation calls the action again, and throws again.
\<close>

theorem rule_fires_again_after_throw:
  "InteractionTracker testPlatform storedObjectPage = Some firstVisit
   \<and> fst (loadEvolutionHistory firstVisit) = JObject []
   \<and> returned (EvolutionEngine testPlatform firstVisit)
   \<and> evolutionHistory fourClicks = JObject []
   \<and> condition ctaRule (data fourClicks)
   \<and> checkEvolutionRules testPlatform fourClicks = Threw TypeError oneEvaluation
   \<and> calls ''cta_optimization'' oneEvaluation = [(''cta_optimization'', 1700000013000)]
   \<and> ''cta_optimization'' \<notin> currentEvolutions oneEvaluation
   \<and> condition ctaRule (data oneEvaluation)
   \<and> checkEvolutionRules testPlatform oneEvaluation = Threw TypeError twoEvaluations
   \<and> length (calls ''cta_optimization'' twoEvaluations) = 2
   \<and> ''cta_optimization'' \<notin> currentEvolutions twoEvaluations"
proof -
  have l: "fst (loadEvolutionHistory firstVisit) = JObject []"
    using firstVisit_session(5,6) by (simp add: loadEvolutionHistory_eq)
  note p = firstVisit_pages
  have one: "calls ''cta_optimization'' oneEvaluation = [(''cta_optimization'', 1700000013000)]"
    "''cta_optimization'' \<notin> currentEvolutions oneEvaluation"
    "condition ctaRule (data oneEvaluation)"
    using p(4) by (simp_all add: p(7) p(2) calls_def)
  have two: "length (calls ''cta_optimization'' twoEvaluations) = 2"
    "''cta_optimization'' \<notin> currentEvolutions twoEvaluations"
    by (simp_all add: p(8) p(2) calls_def)
  from firstVisit_eq(1) l p(10) p(1) p(4) p(5) p(6) one two show ?thesis by simp
qed

text \<open>
  C3 fails in the same session: the second call of the action comes three seconds after
  the first, within the cooldown of 45 seconds, because the first call threw before
  \<open>lastAppliedTimes\<close> was set, and \<open>shouldApplyRule\<close> measures the cooldown from 0.
\<close>

theorem action_applied_within_cooldown:
  "cooldown ctaRule = 45000
   \<and> calls ''cta_optimization'' twoEvaluations
       = [(''cta_optimization'', 1700000013000), (''cta_optimization'', 1700000016000)]
   \<and> 1700000016000 - 1700000013000 \<le> cooldown ctaRule
   \<and> lastAppliedTimes oneEvaluation ''cta_optimization'' = None
   \<and> lastAppliedTimes twoEvaluations ''cta_optimization'' = None
   \<and> fst (shouldApplyRule testPlatform ctaRule (data oneEvaluation) oneEvaluation)"
proof -
  note p = firstVisit_pages
  have a: "calls ''cta_optimization'' twoEvaluations
       = [(''cta_optimization'', 1700000013000), (''cta_optimization'', 1700000016000)]"
    by (simp add: p(8) calls_def)
  have b: "lastAppliedTimes oneEvaluation ''cta_optimization'' = None"
    "lastAppliedTimes twoEvaluations ''cta_optimization'' = None"
    by (simp_all add: p(7) p(8) p(3))
  have c: "fst (shouldApplyRule testPlatform ctaRule (data oneEvaluation) oneEvaluation)"
    using p(4) by (simp add: shouldApplyRule_eq p(7) p(2) p(3) rule_table testPlatform_def)
  from a b c show ?thesis by (simp add: rule_table)
qed

text \<open>
  C5 fails in the same session: the record of the first visit has \<open>clicks.cta\<close> and
  \<open>clicks.contact\<close> at 0, four calls \<open>trackClick('cta')\<close> make the predicate of
  \<open>cta_optimization\<close> true, and the next evaluation writes the three labels; but the
  evaluation after it writes them a second time.
\<close>

theorem labels_rewritten_at_every_evaluation:
  "map_of (clicks (data firstVisit)) ''cta'' = Some (Num 0)
   \<and> map_of (clicks (data firstVisit)) ''contact'' = Some (Num 0)
   \<and> map_of (clicks (data fourClicks)) ''cta'' = Some (Num 4)
   \<and> condition ctaRule (data fourClicks)
   \<and> textWrites fourClicks = []
   \<and> textWrites oneEvaluation = ctaLabels
   \<and> contactHeroSpan oneEvaluation = Some ''Let's Build Together!''
   \<and> exploreProjectsSpan oneEvaluation = Some seeMyWork
   \<and> submitContactSpan oneEvaluation = Some ''Send Message Now!''
   \<and> textWrites twoEvaluations = ctaLabels @ ctaLabels
   \<and> length (textWrites twoEvaluations) = 6"
proof -
  note p = firstVisit_pages
  have z: "map_of (clicks (data firstVisit)) ''contact'' = Some (Num 0)"
    by (simp add: firstVisit_eq(2) defaultData_def)
  have t: "textWrites fourClicks = []"
    using nonarray_session(4) [OF firstVisit_session]
    by (simp add: fourClicks_def engine_frame_def firstVisit_eq(2) storedObjectPage_def
          blankPage_def)
  have one: "textWrites oneEvaluation = ctaLabels"
    "contactHeroSpan oneEvaluation = Some ''Let's Build Together!''"
    "exploreProjectsSpan oneEvaluation = Some seeMyWork"
    "submitContactSpan oneEvaluation = Some ''Send Message Now!''"
    by (simp_all add: p(7))
  have two: "textWrites twoEvaluations = ctaLabels @ ctaLabels"
    "length (textWrites twoEvaluations) = 6"
    by (simp_all add: p(8) ctaLabels_def)
  from firstVisit_session(2) z p(9) p(4) t one two show ?thesis by simp
qed

section \<open>Storage failures and the round trip\<close>

text \<open>
  C9. \<open>saveData\<close> never changes the record; when the write fails it only appends a
  warning to the console, so the storage is as before and nothing is thrown. \<open>loadData\<close>
  returns \<open>null\<close> when the storage cannot be read, holds nothing under the key, or holds
  a text that does not parse; the constructor then starts from the default record, to
  which its \<open>init\<close> adds the first visit.
\<close>

theorem storage_errors_contained:
  "data (saveData w) = data w
   \<and> (storage w \<noteq> Available \<longrightarrow>
        saveData w = w\<lparr>warnings := warnings w @ [''Could not save interaction data:'']\<rparr>)
   \<and> ((storage w = Denied \<or> localStorage w ''portfolioInteractionData'' = None
        \<or> (\<exists>s e. localStorage w ''portfolioInteractionData'' = Some s \<and> JSON_parse s = Inl e))
       \<longrightarrow> fst (loadData w) = JNull
         \<and> map_option data (tracker_fields P w) = Some defaultData
         \<and> map_option data (InteractionTracker P w) =
             Some (defaultData\<lparr>visitCount := 1,
                     lastVisit := Some (toDateString P (clock P (Suc (ticks w)))),
                     interactions := [[(''type'', JString ''visit''),
                        (''timestamp'', JNumber (real_of_int (clock P (Suc (Suc (ticks w))))))]]\<rparr>))"
proof -
  have a: "data (saveData w) = data w" by (rule data_saveData)
  have b: "saveData w = w\<lparr>warnings := warnings w @ [''Could not save interaction data:'']\<rparr>"
    if "storage w \<noteq> Available" using that by (simp add: saveData_eq)
  have c: "fst (loadData w) = JNull
         \<and> map_option data (tracker_fields P w) = Some defaultData
         \<and> map_option data (InteractionTracker P w) =
             Some (defaultData\<lparr>visitCount := 1,
                     lastVisit := Some (toDateString P (clock P (Suc (ticks w)))),
                     interactions := [[(''type'', JString ''visit''),
                        (''timestamp'', JNumber (real_of_int (clock P (Suc (Suc (ticks w))))))]]\<rparr>)"
    if h: "storage w = Denied \<or> localStorage w ''portfolioInteractionData'' = None
        \<or> (\<exists>s e. localStorage w ''portfolioInteractionData'' = Some s \<and> JSON_parse s = Inl e)"
  proof -
    have l: "fst (loadData w) = JNull"
    proof (cases "storage w = Denied")
      case True
      then show ?thesis by (simp add: loadData_eq)
    next
      case False
      show ?thesis
      proof (cases "localStorage w ''portfolioInteractionData''")
        case None
        with False show ?thesis by (simp add: loadData_eq)
      next
        case (Some s)
        with h False obtain e where "JSON_parse s = Inl e" by auto
        then obtain t where "s = NotJson t" by (cases s) (simp_all add: JSON_parse_def)
        with Some False show ?thesis by (simp add: loadData_eq)
      qed
    qed
    then have f: "falsy (fst (loadData w))" by (simp add: falsy_def)
    then have d: "map_option data (tracker_fields P w) = Some defaultData"
      by (simp add: tracker_fields_data)
    note t = tracker_fields_default [OF f, of P]
    have "map_option data (InteractionTracker P w) =
            Some (defaultData\<lparr>visitCount := 1,
                     lastVisit := Some (toDateString P (clock P (Suc (ticks w)))),
                     interactions := [[(''type'', JString ''visit''),
                        (''timestamp'', JNumber (real_of_int (clock P (Suc (Suc (ticks w))))))]]\<rparr>)"
      by (simp add: InteractionTracker_def tracker_init_def t incrementVisitCount_eq data_saveData)
         (simp add: defaultData_def)
    with l d show ?thesis by simp
  qed
  from a b c show ?thesis by blast
qed

text \<open>With a storage that refuses every access, saving warns and loading falls back.\<close>

theorem storage_errors_contained_witness:
  "storage deniedPage \<noteq> Available \<and> storage deniedPage = Denied
   \<and> saveData deniedPage
       = deniedPage\<lparr>warnings := warnings deniedPage @ [''Could not save interaction data:'']\<rparr>
   \<and> fst (loadData deniedPage) = JNull
   \<and> map_option data (tracker_fields testPlatform deniedPage) = Some defaultData
   \<and> map_option data (InteractionTracker testPlatform deniedPage) =
       Some (defaultData\<lparr>visitCount := 1,
               lastVisit := Some (toDateString testPlatform
                                    (clock testPlatform (Suc (ticks deniedPage)))),
               interactions := [[(''type'', JString ''visit''),
                  (''timestamp'',
                     JNumber (real_of_int (clock testPlatform (Suc (Suc (ticks deniedPage))))))]]\<rparr>)"
proof -
  have "storage deniedPage = Denied" by (simp add: deniedPage_def blankPage_def)
  with storage_errors_contained [of deniedPage testPlatform] show ?thesis by simp
qed














section \<open>Visits\<close>

text \<open>
  C10. \<open>incrementVisitCount\<close> reads the clock. When \<open>lastVisit\<close> already is the string of
  that day, nothing else happens: the record, the storage and the console are as before.
  Otherwise \<open>visitCount\<close> grows by one, \<open>lastVisit\<close> becomes the string of the day, one
  \<open>visit\<close> entry is added to the log, and the record is saved.
\<close>

theorem visit_counted_once_per_day:
  "(lastVisit (data w) = Some (toDateString P (clock P (ticks w))) \<longrightarrow>
      incrementVisitCount P w = w\<lparr>ticks := Suc (ticks w)\<rparr>)
   \<and> (lastVisit (data w) \<noteq> Some (toDateString P (clock P (ticks w))) \<longrightarrow>
        visitCount (data (incrementVisitCount P w)) = visitCount (data w) + 1
        \<and> lastVisit (data (incrementVisitCount P w)) = Some (toDateString P (clock P (ticks w)))
        \<and> interactions (data (incrementVisitCount P w)) =
            drop (length (interactions (data w)) + 1 - 1000)
              (interactions (data w) @
                 [[(''type'', JString ''visit''),
                   (''timestamp'', JNumber (real_of_int (clock P (Suc (ticks w)))))]])
        \<and> (storage w = Available \<longrightarrow>
             localStorage (incrementVisitCount P w) ''portfolioInteractionData''
               = Some (Json (toJSON (data (incrementVisitCount P w)))))
        \<and> (storage w \<noteq> Available \<longrightarrow>
             warnings (incrementVisitCount P w)
               = warnings w @ [''Could not save interaction data:'']))"
proof (cases "lastVisit (data w) = Some (toDateString P (clock P (ticks w)))")
  case True
  then show ?thesis by (simp add: incrementVisitCount_eq)
next
  case False
  then show ?thesis by (simp add: incrementVisitCount_eq saveData_eq)
qed

text \<open>A second visit on the same day changes nothing; a first visit is counted.\<close>

theorem visit_counted_once_per_day_witness:
  "lastVisit (data visitedPage) = Some (toDateString testPlatform (clock testPlatform (ticks visitedPage)))
   \<and> incrementVisitCount testPlatform visitedPage = visitedPage\<lparr>ticks := Suc 0\<rparr>
   \<and> lastVisit (data blankPage) \<noteq> Some (toDateString testPlatform (clock testPlatform (ticks blankPage)))
   \<and> storage blankPage = Available
   \<and> visitCount (data (incrementVisitCount testPlatform blankPage)) = 1
   \<and> lastVisit (data (incrementVisitCount testPlatform blankPage)) = Some ''Tue Nov 14 2023''
   \<and> localStorage (incrementVisitCount testPlatform blankPage) ''portfolioInteractionData''
        = Some (Json (toJSON (data (incrementVisitCount testPlatform blankPage))))"
  using visit_counted_once_per_day [of visitedPage testPlatform]
        visit_counted_once_per_day [of blankPage testPlatform]
  by (simp add: visitedPage_def blankPage_def testPlatform_def defaultData_def)

end
